theory Spec2Isabelle
  imports Main "HOL-Library.Word"
begin

section \<open>The on-chain registry (contract ContractRegistry)\<close>

text \<open>
  Solidity value types: an \<open>address\<close> is a 160-bit word, \<open>bytes32\<close> and \<open>uint256\<close> are
  256-bit words. A Solidity \<open>string\<close> is its byte sequence, so \<open>bytes(s).length\<close> is
  \<open>length s\<close>. A \<open>mapping\<close> is total: a key never written reads as the zero value (the
  zero address, the empty array).
\<close>

type_synonym address = "160 word"
type_synonym bytes32 = "256 word"
type_synonym uint256 = "256 word"

record DeployedContract =
  name :: string
  contractAddress :: address
  network :: string
  timestamp :: uint256
  txHash :: bytes32
  deployer :: address

record registry =
  userContracts :: "address \<Rightarrow> DeployedContract list"
  contractToOwner :: "address \<Rightarrow> address"

datatype event =
    ContractRegistered address address string string bytes32 uint256
  | ContractUpdated address address string

text \<open>The revert reasons, one constructor for each \<open>require\<close>/\<open>revert\<close> string of the contract.\<close>

datatype revert =
    NameCannotBeEmpty
  | InvalidContractAddress
  | NetworkCannotBeEmpty
  | InvalidTransactionHash
  | ContractAlreadyRegistered
  | NotTheContractOwner
  | ContractNotRegistered
  | ContractNotFound

text \<open>The storage of a freshly deployed registry.\<close>

definition init_registry :: registry where
  "init_registry = \<lparr>userContracts = (\<lambda>_. []), contractToOwner = (\<lambda>_. 0)\<rparr>"

text \<open>
  \<open>registerContract\<close>; \<open>sender\<close> is \<open>msg.sender\<close> and \<open>block_timestamp\<close> is
  \<open>block.timestamp\<close>. A revert is \<open>Inl\<close>; a successful call returns the new storage
  and the events it emitted.
\<close>

definition registerContract ::
  "address \<Rightarrow> uint256 \<Rightarrow> string \<Rightarrow> address \<Rightarrow> string \<Rightarrow> bytes32 \<Rightarrow> registry
     \<Rightarrow> revert + (registry \<times> event list)" where
  "registerContract sender block_timestamp nm addr net tx s =
     (if \<not> length nm > 0 then Inl NameCannotBeEmpty
      else if \<not> addr \<noteq> 0 then Inl InvalidContractAddress
      else if \<not> length net > 0 then Inl NetworkCannotBeEmpty
      else if \<not> tx \<noteq> 0 then Inl InvalidTransactionHash
      else if \<not> contractToOwner s addr = 0 then Inl ContractAlreadyRegistered
      else
        let newContract = \<lparr>name = nm, contractAddress = addr, network = net,
                            timestamp = block_timestamp, txHash = tx, deployer = sender\<rparr>
        in Inr (s\<lparr>userContracts := (userContracts s)(sender := userContracts s sender @ [newContract]),
                  contractToOwner := (contractToOwner s)(addr := sender)\<rparr>,
                [ContractRegistered sender addr nm net tx block_timestamp]))"

text \<open>
  The scan of \<open>updateContractName\<close>: \<open>for (uint256 i = 0; i < contracts.length; i++)\<close>
  over the caller's storage array. It returns the array and whether a record was
  rewritten (the event is emitted exactly then). The index stays below the array
  length, so the checked \<open>i++\<close> never overflows.
\<close>

function updateLoop :: "nat \<Rightarrow> address \<Rightarrow> string \<Rightarrow> DeployedContract list
    \<Rightarrow> DeployedContract list \<times> bool" where
  "updateLoop i addr newName contracts =
     (if i < length contracts then
        (if contractAddress (contracts ! i) = addr
         then (contracts[i := (contracts ! i)\<lparr>name := newName\<rparr>], True)
         else updateLoop (i + 1) addr newName contracts)
      else (contracts, False))"
  by pat_completeness auto
termination
  by (relation "measure (\<lambda>(i, addr, newName, contracts). length contracts - i)") auto

declare updateLoop.simps [simp del]

text \<open>
  \<open>updateContractName\<close>: the modifier \<open>contractExists\<close> runs first, then
  \<open>onlyContractOwner\<close>, then the body.
\<close>

definition updateContractName ::
  "address \<Rightarrow> address \<Rightarrow> string \<Rightarrow> registry \<Rightarrow> revert + (registry \<times> event list)" where
  "updateContractName sender addr newName s =
     (if \<not> contractToOwner s addr \<noteq> 0 then Inl ContractNotRegistered
      else if \<not> contractToOwner s addr = sender then Inl NotTheContractOwner
      else if \<not> length newName > 0 then Inl NameCannotBeEmpty
      else
        (case updateLoop 0 addr newName (userContracts s sender) of
           (contracts, True) \<Rightarrow>
             Inr (s\<lparr>userContracts := (userContracts s)(sender := contracts)\<rparr>,
                  [ContractUpdated sender addr newName])
         | (contracts, False) \<Rightarrow>
             Inr (s\<lparr>userContracts := (userContracts s)(sender := contracts)\<rparr>, [])))"

definition getUserContracts :: "address \<Rightarrow> registry \<Rightarrow> DeployedContract list" where
  "getUserContracts user s = userContracts s user"

definition getMyContracts :: "address \<Rightarrow> registry \<Rightarrow> DeployedContract list" where
  "getMyContracts sender s = userContracts s sender"

text \<open>The scan of \<open>getContract\<close>, ending in \<open>revert("Contract not found")\<close>.\<close>

function getLoop :: "nat \<Rightarrow> address \<Rightarrow> DeployedContract list \<Rightarrow> revert + DeployedContract" where
  "getLoop i addr contracts =
     (if i < length contracts then
        (if contractAddress (contracts ! i) = addr then Inr (contracts ! i)
         else getLoop (i + 1) addr contracts)
      else Inl ContractNotFound)"
  by pat_completeness auto
termination
  by (relation "measure (\<lambda>(i, addr, contracts). length contracts - i)") auto

declare getLoop.simps [simp del]

definition getContract :: "address \<Rightarrow> registry \<Rightarrow> revert + DeployedContract" where
  "getContract addr s =
     (if \<not> contractToOwner s addr \<noteq> 0 then Inl ContractNotRegistered
      else
        let owner = contractToOwner s addr;
            contracts = userContracts s owner
        in getLoop 0 addr contracts)"

definition getContractOwner :: "address \<Rightarrow> registry \<Rightarrow> revert + address" where
  "getContractOwner addr s =
     (if \<not> contractToOwner s addr \<noteq> 0 then Inl ContractNotRegistered
      else Inr (contractToOwner s addr))"

text \<open>
  The \<open>uint256\<close> array length, given by its value: an array of \<open>2 ^ 256\<close> records does
  not fit any storage, so the count never wraps.
\<close>

definition getUserContractCount :: "address \<Rightarrow> registry \<Rightarrow> nat" where
  "getUserContractCount user s = length (userContracts s user)"

definition getMyContractCount :: "address \<Rightarrow> registry \<Rightarrow> nat" where
  "getMyContractCount sender s = length (userContracts s sender)"

definition isContractRegistered :: "address \<Rightarrow> registry \<Rightarrow> bool" where
  "isContractRegistered addr s = (contractToOwner s addr \<noteq> 0)"

subsection \<open>Transactions\<close>

text \<open>
  The registry's storage changes only through transactions that call one of its two
  state-changing functions. A transaction that reverts leaves the storage as it was.
\<close>

datatype call =
    Register string address string bytes32
  | Rename address string

fun execute :: "address \<Rightarrow> uint256 \<Rightarrow> call \<Rightarrow> registry \<Rightarrow> revert + (registry \<times> event list)" where
  "execute sender block_timestamp (Register nm addr net tx) s =
     registerContract sender block_timestamp nm addr net tx s"
| "execute sender block_timestamp (Rename addr newName) s =
     updateContractName sender addr newName s"

definition storage_after :: "address \<Rightarrow> uint256 \<Rightarrow> call \<Rightarrow> registry \<Rightarrow> registry" where
  "storage_after sender block_timestamp c s =
     (case execute sender block_timestamp c s of Inl _ \<Rightarrow> s | Inr (s', _) \<Rightarrow> s')"

fun run :: "(address \<times> uint256 \<times> call) list \<Rightarrow> registry \<Rightarrow> registry" where
  "run [] s = s"
| "run ((sender, block_timestamp, c) # txs) s = run txs (storage_after sender block_timestamp c s)"

text \<open>
  The reachable storages. The sender of a transaction is an account or a contract, and
  never the zero address: no key signs for it and no contract is deployed at it.
\<close>

inductive reachable :: "registry \<Rightarrow> bool" where
  reachable_init: "reachable init_registry"
| reachable_step:
    "reachable s \<Longrightarrow> sender \<noteq> 0 \<Longrightarrow> execute sender block_timestamp c s = Inr (s', evs)
      \<Longrightarrow> reachable s'"

text \<open>
  The two parts of the storage agree: every record is filed under its deployer, who is
  the owner of its address and not the zero address; every owned address has a record in
  its owner's array; and no array holds an address twice.
\<close>

definition consistent :: "registry \<Rightarrow> bool" where
  "consistent s \<longleftrightarrow>
     (\<forall>u r. r \<in> set (userContracts s u) \<longrightarrow>
        u \<noteq> 0 \<and> contractToOwner s (contractAddress r) = u \<and> deployer r = u) \<and>
     (\<forall>a. contractToOwner s a \<noteq> 0 \<longrightarrow>
        a \<in> contractAddress ` set (userContracts s (contractToOwner s a))) \<and>
     (\<forall>u. distinct (map contractAddress (userContracts s u)))"

text \<open>
  A sample storage: account \<open>1\<close> has registered the contract at address \<open>2\<close> on a fresh
  registry.
\<close>

definition sample_registry :: registry where
  "sample_registry =
     storage_after 1 1700000000 (Register ''Demo'' 2 ''mantle-testnet'' 3) init_registry"

text \<open>
  The name of a record after a list of transactions: each call of \<open>updateContractName\<close>
  for the record's address by its owner with a non-empty name gives the record that name.
\<close>

fun name_after :: "address \<Rightarrow> address \<Rightarrow> string \<Rightarrow> (address \<times> uint256 \<times> call) list \<Rightarrow> string" where
  "name_after owner addr nm [] = nm"
| "name_after owner addr nm ((sender, block_timestamp, Register n b net tx) # txs) =
     name_after owner addr nm txs"
| "name_after owner addr nm ((sender, block_timestamp, Rename b newName) # txs) =
     name_after owner addr
       (if sender = owner \<and> b = addr \<and> length newName > 0 then newName else nm) txs"

text \<open>
  Account \<open>1\<close> registers a second contract, at address \<open>4\<close>, on the sample storage. In the
  calls that follow, account \<open>1\<close> registers a third contract, account \<open>5\<close> tries to rename
  the second one, and account \<open>1\<close> renames the first.
\<close>

definition second_registry :: registry where
  "second_registry =
     storage_after 1 1700000100 (Register ''Second'' 4 ''mantle-testnet'' 5) sample_registry"

definition later_calls :: "(address \<times> uint256 \<times> call) list" where
  "later_calls =
     [(1, 1700000200, Register ''Third'' 6 ''mantle-testnet'' 7),
      (5, 1700000300, Rename 4 ''Taken''),
      (1, 1700000400, Rename 2 ''Other'')]"

section \<open>The deployment bot (index.js)\<close>

subsection \<open>JavaScript values, exceptions and strings\<close>

text \<open>
  A JSON value as \<open>JSON.parse\<close> returns it. A number is given by the text that
  \<open>String(n)\<close> prints for it; \<open>JSON.parse\<close> yields no NaN, and \<open>-0\<close> is printed as
  \<open>0\<close>, so \<open>''0''\<close> is the one number that is falsy. An object is the list of its own properties
  in the order \<open>Object.keys\<close> enumerates them, every key once. A JavaScript value that
  may be \<open>undefined\<close> is a \<open>json option\<close>, with \<open>None\<close> for \<open>undefined\<close>. A character of
  a string stands for one UTF-16 code unit.
\<close>

datatype json =
    JNull
  | JBool bool
  | JNum string
  | JStr string
  | JArr "json list"
  | JObj "(string \<times> json) list"

type_synonym jsval = "json option"

text \<open>
  A thrown value: an \<open>Error\<close> made by the program or by a library, or a \<open>TypeError\<close> or
  \<open>SyntaxError\<close> of the engine; each with its \<open>message\<close>. The engine's wording is
  that of Node (V8); the program shows it in its replies and looks at it through
  \<open>includes\<close> tests.
\<close>

datatype exn = Error string | TypeError string | SyntaxError string

fun message :: "exn \<Rightarrow> string" where
  "message (Error m) = m"
| "message (TypeError m) = m"
| "message (SyntaxError m) = m"

definition and_then :: "exn + 'a \<Rightarrow> ('a \<Rightarrow> exn + 'b) \<Rightarrow> exn + 'b" where
  "and_then m f = (case m of Inl e \<Rightarrow> Inl e | Inr x \<Rightarrow> f x)"

fun truthy :: "jsval \<Rightarrow> bool" where
  "truthy None = False"
| "truthy (Some JNull) = False"
| "truthy (Some (JBool b)) = b"
| "truthy (Some (JNum n)) = (n \<noteq> ''0'')"
| "truthy (Some (JStr s)) = (s \<noteq> [])"
| "truthy (Some (JArr xs)) = True"
| "truthy (Some (JObj kvs)) = True"

definition startsWith :: "string \<Rightarrow> string \<Rightarrow> bool" where
  "startsWith s p \<longleftrightarrow> take (length p) s = p"

fun includes_text :: "string \<Rightarrow> string \<Rightarrow> bool" where
  "includes_text [] p = (p = [])"
| "includes_text (c # s) p = (startsWith (c # s) p \<or> includes_text s p)"

declare includes_text.simps [simp del]

text \<open>\<open>s.replace(p, '')\<close> for a string pattern: the first occurrence of \<open>p\<close> is cut out.\<close>

fun remove_first :: "string \<Rightarrow> string \<Rightarrow> string" where
  "remove_first [] p = []"
| "remove_first (c # s) p =
     (if startsWith (c # s) p then drop (length p) (c # s) else c # remove_first s p)"

text \<open>The white space that \<open>trim\<close> strips, among the code units below 256.\<close>

definition is_space :: "char \<Rightarrow> bool" where
  "is_space c \<longleftrightarrow> of_char c \<in> {9, 10, 11, 12, 13, 32, 160 :: nat}"

definition trim :: "string \<Rightarrow> string" where
  "trim s = rev (dropWhile is_space (rev (dropWhile is_space s)))"

fun join :: "string \<Rightarrow> string list \<Rightarrow> string" where
  "join sep [] = []"
| "join sep [x] = x"
| "join sep (x # y # ys) = x @ sep @ join sep (y # ys)"

fun decimal :: "nat \<Rightarrow> string" where
  "decimal n =
     (if n < 10 then [''0123456789'' ! n]
      else decimal (n div 10) @ [''0123456789'' ! (n mod 10)])"

declare decimal.simps [simp del]

text \<open>
  \<open>String(v)\<close>, as string concatenation and template literals apply it. An array prints
  its elements joined by commas, a \<open>null\<close> element as the empty string.
\<close>

fun ToString :: "json \<Rightarrow> string" where
  "ToString JNull = ''null''"
| "ToString (JBool b) = (if b then ''true'' else ''false'')"
| "ToString (JNum n) = n"
| "ToString (JStr s) = s"
| "ToString (JArr xs) = join '','' (map (\<lambda>x. if x = JNull then [] else ToString x) xs)"
| "ToString (JObj kvs) = ''[object Object]''"

text \<open>
  The string a template literal prints for a value, which is also the property key a
  value stands for in \<open>o[v]\<close>.
\<close>

definition template :: "jsval \<Rightarrow> string" where
  "template v = (case v of None \<Rightarrow> ''undefined'' | Some x \<Rightarrow> ToString x)"

text \<open>
  The own enumerable properties of a value, as \<open>Object.keys\<close> lists them. The program
  calls \<open>Object.keys\<close> on a truthy value only, so that it does not throw.
\<close>

fun own_properties :: "json \<Rightarrow> (string \<times> json) list" where
  "own_properties (JObj kvs) = kvs"
| "own_properties (JArr xs) = zip (map decimal [0..<length xs]) xs"
| "own_properties (JStr s) = zip (map decimal [0..<length s]) (map (\<lambda>c. JStr [c]) s)"
| "own_properties v = []"

definition Object_keys :: "jsval \<Rightarrow> string list" where
  "Object_keys v = (case v of None \<Rightarrow> [] | Some x \<Rightarrow> map fst (own_properties x))"

text \<open>
  The property read \<open>v.k\<close> or \<open>v[k]\<close>: a \<open>TypeError\<close> on \<open>undefined\<close> and \<open>null\<close>, the own
  property otherwise, with the \<open>length\<close> of an array or a string. The program reads
  the names \<open>bytecode\<close>, \<open>abi\<close>, \<open>sourceCode\<close>, \<open>type\<close>, \<open>inputs\<close>, \<open>name\<close>, \<open>length\<close>,
  \<open>errors\<close>, \<open>severity\<close>, \<open>message\<close>, \<open>contracts\<close>, \<open>contract.sol\<close>, \<open>evm\<close> and
  \<open>object\<close> and the keys \<open>Object.keys\<close> gave it; none of them is inherited from a
  prototype.
\<close>

fun get :: "jsval \<Rightarrow> string \<Rightarrow> exn + jsval" where
  "get None k =
     Inl (TypeError (''Cannot read properties of undefined (reading '' @ [CHR 0x27] @ k @
                     [CHR 0x27] @ '')''))"
| "get (Some JNull) k =
     Inl (TypeError (''Cannot read properties of null (reading '' @ [CHR 0x27] @ k @
                     [CHR 0x27] @ '')''))"
| "get (Some (JArr xs)) k =
     Inr (if k = ''length'' then Some (JNum (decimal (length xs)))
          else map_of (own_properties (JArr xs)) k)"
| "get (Some (JStr s)) k =
     Inr (if k = ''length'' then Some (JNum (decimal (length s)))
          else map_of (own_properties (JStr s)) k)"
| "get (Some v) k = Inr (map_of (own_properties v) k)"

subsection \<open>compileSolidity\<close>

text \<open>
  The callback of \<open>output.errors.filter\<close>, element by element: the diagnostics whose
  \<open>severity\<close> is \<open>error\<close>. Reading \<open>severity\<close> of a \<open>null\<close> element throws.
\<close>

fun filter_errors :: "json list \<Rightarrow> exn + json list" where
  "filter_errors [] = Inr []"
| "filter_errors (error # rest) =
     and_then (get (Some error) ''severity'') (\<lambda>severity.
     and_then (filter_errors rest) (\<lambda>errors.
       Inr (if severity = Some (JStr ''error'') then error # errors else errors)))"

text \<open>
  \<open>errors.map(err => err.message).join('\n')\<close>: \<open>join\<close> prints an \<open>undefined\<close> or \<open>null\<close>
  element as the empty string. Every element kept by the filter is an object, so the
  read of \<open>message\<close> does not throw.
\<close>

definition error_messages :: "json list \<Rightarrow> string" where
  "error_messages errors =
     join [CHR 0x0A]
       (map (\<lambda>err. case get (Some err) ''message'' of
                      Inr (Some m) \<Rightarrow> (if m = JNull then [] else ToString m)
                    | _ \<Rightarrow> []) errors)"

text \<open>
  The body of the \<open>try\<close> block. \<open>solc_compile sourceCode\<close> stands for
  \<open>JSON.parse(solc.compile(JSON.stringify(input)))\<close>, the compiler being a library:
  the parsed output, or what the library threw.
\<close>

definition compileSolidity_try :: "(jsval \<Rightarrow> exn + json) \<Rightarrow> jsval \<Rightarrow> exn + (string \<times> jsval)" where
  "compileSolidity_try solc_compile sourceCode =
     and_then (solc_compile sourceCode) (\<lambda>output.
     and_then (get (Some output) ''errors'') (\<lambda>output_errors.
     and_then
       (if truthy output_errors then
          and_then
            (case output_errors of
               Some (JArr es) \<Rightarrow> filter_errors es
             | _ \<Rightarrow> Inl (TypeError ''output.errors.filter is not a function''))
            (\<lambda>errors.
               if length errors > 0
               then Inl (Error (''Compilation errors:'' @ [CHR 0x0A] @ error_messages errors))
               else Inr ())
        else Inr ())
       (\<lambda>_.
     and_then (get (Some output) ''contracts'') (\<lambda>output_contracts.
     and_then (get output_contracts ''contract.sol'') (\<lambda>contracts.
       if \<not> truthy contracts \<or> length (Object_keys contracts) = 0
       then Inl (Error ''No contracts found in the source code'')
       else
         let contractName = hd (Object_keys contracts) in
         and_then (get contracts contractName) (\<lambda>contract.
         and_then (get contract ''evm'') (\<lambda>evm.
         and_then (if \<not> truthy evm then Inr None else get evm ''bytecode'') (\<lambda>bytecode.
         and_then (if \<not> truthy bytecode then Inr None else get bytecode ''object'') (\<lambda>object.
           (case object of
              Some obj \<Rightarrow>
                if \<not> truthy (Some obj)
                then Inl (Error ''No bytecode generated. Check your contract code.'')
                else
                  and_then (get contract ''abi'') (\<lambda>abi.
                    Inr (''0x'' @ ToString obj, abi))
            | None \<Rightarrow> Inl (Error ''No bytecode generated. Check your contract code.'')))))))))))"

text \<open>
  \<open>compileSolidity\<close>: the \<open>catch\<close> rethrows an error whose message includes
  \<open>Compilation errors:\<close> and wraps every other one. It returns the pair of \<open>bytecode\<close>
  and \<open>abi\<close>.
\<close>

definition compileSolidity :: "(jsval \<Rightarrow> exn + json) \<Rightarrow> jsval \<Rightarrow> exn + (string \<times> jsval)" where
  "compileSolidity solc_compile sourceCode =
     (case compileSolidity_try solc_compile sourceCode of
        Inl error \<Rightarrow>
          if includes_text (message error) ''Compilation errors:'' then Inl error
          else Inl (Error (''Solidity compilation failed: '' @ message error))
      | Inr compiled \<Rightarrow> Inr compiled)"

subsection \<open>Sessions and configuration\<close>

text \<open>The values of \<open>session.step\<close>, one constructor for each string the program assigns.\<close>

datatype step =
    contract_input
  | awaiting_contract_data
  | awaiting_constructor_params
  | awaiting_contract_name
  | awaiting_network_selection
  | deployment_confirmation
  | awaiting_private_key_choice
  | awaiting_private_key
  | deploying
  | awaiting_address

datatype input_type = bytecode_abi | solidity

text \<open>
  A session object. The fields \<open>contractData\<close>, \<open>constructorParams\<close>, \<open>network\<close> and
  \<open>privateKey\<close> are JavaScript values: \<open>Some JNull\<close> is \<open>null\<close>, which
  \<open>startDeploymentProcess\<close> writes, and \<open>None\<close> is \<open>undefined\<close>, a field the object does
  not have. The other fields are never \<open>null\<close>: \<open>None\<close> is a field the object does not
  have. The field \<open>network\<close> of the source is \<open>session_network\<close> here, the field \<open>name\<close> of
  a network \<open>network_name\<close>: the registry's record has fields of these names.
\<close>

record session =
  step :: step
  contractData :: jsval
  constructorParams :: jsval
  session_network :: jsval
  privateKey :: jsval
  contractInputType :: "input_type option"
  contractName :: "string option"
  action :: "string option"

type_synonym chat = int
type_synonym sessions = "chat \<rightharpoonup> session"

text \<open>The session \<open>startDeploymentProcess\<close> stores, and the one \<open>showMyContracts\<close> stores.\<close>

definition deployment_session :: session where
  "deployment_session =
     \<lparr>step = contract_input, contractData = Some JNull, constructorParams = Some JNull,
      session_network = Some JNull, privateKey = Some JNull, contractInputType = None,
      contractName = None, action = None\<rparr>"

definition view_session :: session where
  "view_session =
     \<lparr>step = awaiting_address, contractData = None, constructorParams = None,
      session_network = None, privateKey = None, contractInputType = None,
      contractName = None, action = Some ''view_contracts''\<rparr>"

record netinfo =
  network_name :: string
  rpcUrl :: string
  chainId :: nat
  isTestnet :: bool

definition NETWORKS :: "(string \<times> netinfo) list" where
  "NETWORKS =
     [(''mantle-testnet'',
       \<lparr>network_name = ''Mantle Sepolia Testnet'', rpcUrl = ''https://rpc.sepolia.mantle.xyz'',
        chainId = 5003, isTestnet = True\<rparr>)]"

text \<open>
  \<open>NETWORKS[key]\<close>; a \<open>null\<close> key reads the property \<open>null\<close>, an \<open>undefined\<close> key the
  property \<open>undefined\<close>. The keys a session holds are \<open>null\<close>, \<open>undefined\<close> or a key of
  \<open>NETWORKS\<close>, none of them a name inherited from \<open>Object.prototype\<close>.
\<close>

definition network_info :: "jsval \<Rightarrow> netinfo option" where
  "network_info key = map_of NETWORKS (template key)"

text \<open>
  What the program takes from outside: the built-in \<open>JSON.parse\<close>, the compiler, the
  \<open>ethers\<close> library with the chain behind it, and the constant
  \<open>CONTRACT_REGISTRY_ADDRESS\<close> of the module \<open>config\<close>. Each operation gives its result or
  what it threw (for an awaited promise: what it rejected with). \<open>not_iterable\<close> is the
  message of the \<open>TypeError\<close> that the engine throws when the program spreads a value
  that is not iterable; its wording is the engine's and changes with its version. A
  provider is given by
  its URL, a wallet by its key and provider, a contract factory by its interface,
  bytecode and wallet; a deployed contract and a sent transaction by the hash of the
  transaction.
\<close>

type_synonym provider = string
type_synonym wallet = "jsval \<times> provider"
type_synonym factory = "jsval \<times> jsval \<times> wallet"

record world =
  JSON_parse :: "string \<Rightarrow> exn + json"
  solc_compile :: "jsval \<Rightarrow> exn + json"
  new_JsonRpcProvider :: "string \<Rightarrow> exn + unit"
  new_Wallet :: "jsval \<Rightarrow> provider \<Rightarrow> exn + unit"
  new_ContractFactory :: "jsval \<Rightarrow> jsval \<Rightarrow> wallet \<Rightarrow> exn + unit"
  factory_deploy :: "factory \<Rightarrow> json list \<Rightarrow> exn + string"
  waitForDeployment :: "string \<Rightarrow> exn + unit"
  getAddress :: "string \<Rightarrow> exn + string"
  getBlockNumber :: "provider \<Rightarrow> exn + string"
  new_Contract :: "string \<Rightarrow> wallet \<Rightarrow> exn + unit"
  registry_registerContract ::
    "wallet \<Rightarrow> string option \<Rightarrow> string \<Rightarrow> jsval \<Rightarrow> string \<Rightarrow> exn + string"
  tx_wait :: "string \<Rightarrow> exn + string option"
  CONTRACT_REGISTRY_ADDRESS :: string
  not_iterable :: "jsval \<Rightarrow> string"

subsection \<open>Messages\<close>

text \<open>
  The messages \<open>bot.sendMessage\<close> sends to the chat of the handler, by kind, with the
  values their text is built from. The first six are the answers to the commands.
\<close>

datatype constructor_info =
    BasedOnSolidityCode
  | NoConstructorParametersNeeded
  | ConstructorRequires string string

datatype failure =
    SolidityCompilationError string
  | InsufficientFunds
  | NonceError
  | GasError
  | OtherError string

datatype registry_note =
    ContractRegisteredNote string "string option"
  | RegistryNotConfigured
  | NoNote

datatype reply =
    SmartContractDeploymentBot
  | HelpAndSecurityInformation
  | AvailableNetworks
  | ContractDeploymentProcess
  | ContractRegistryNotConfigured
  | ViewYourDeployedContracts
  | ContractDataReceived constructor_info
  | ErrorParsingContractData string string
  | ConstructorParametersSet
  | ErrorParsingConstructorParameters string
  | ContractNameCannotBeEmpty
  | ContractNameTooLong
  | ContractNameSet string
  | InvalidAddressFormat
  | ViewUserContracts string
  | InvalidPrivateKeyFormat
  | PrivateKeyReceived string
  | NetworkConfigurationError
  | DeployingTo string
  | CompilingSolidityCode
  | TransactionSent string
  | RegisteringContract
  | ContractDeployed string string string string registry_note
  | DeploymentFailed failure

subsection \<open>Collecting the contract data\<close>

text \<open>The callback of \<open>abi.find\<close>, element by element.\<close>

fun find_constructor :: "json list \<Rightarrow> exn + jsval" where
  "find_constructor [] = Inr None"
| "find_constructor (item # rest) =
     and_then (get (Some item) ''type'') (\<lambda>t.
       if t = Some (JStr ''constructor'') then Inr (Some item) else find_constructor rest)"

text \<open>The callback of \<open>constructorAbi.inputs.map\<close>, with the index of the element.\<close>

fun input_lines :: "nat \<Rightarrow> json list \<Rightarrow> exn + string list" where
  "input_lines index [] = Inr []"
| "input_lines index (input # rest) =
     and_then (get (Some input) ''type'') (\<lambda>t.
     and_then (get (Some input) ''name'') (\<lambda>n.
     and_then (input_lines (index + 1) rest) (\<lambda>lines.
       Inr ((decimal (index + 1) @ ''. '' @ [CHR 0x60] @ template t @ [CHR 0x60] @ '' - '' @
               (if truthy n then template n else ''unnamed'')) # lines))))"

definition getConstructorInfo :: "jsval \<Rightarrow> input_type option \<Rightarrow> exn + constructor_info" where
  "getConstructorInfo data inputType =
     (if inputType = Some solidity then Inr BasedOnSolidityCode
      else
        and_then (get data ''abi'') (\<lambda>abi.
        and_then
          (case abi of
             Some (JArr items) \<Rightarrow> find_constructor items
           | None \<Rightarrow> Inl (TypeError ''Cannot read properties of undefined (reading 'find')'')
           | Some JNull \<Rightarrow> Inl (TypeError ''Cannot read properties of null (reading 'find')'')
           | _ \<Rightarrow> Inl (TypeError ''abi.find is not a function''))
          (\<lambda>constructorAbi.
             if \<not> truthy constructorAbi then Inr NoConstructorParametersNeeded
             else
               and_then (get constructorAbi ''inputs'') (\<lambda>inputs.
                 if \<not> truthy inputs then Inr NoConstructorParametersNeeded
                 else
                   and_then (get inputs ''length'') (\<lambda>len.
                     if len = Some (JNum ''0'') then Inr NoConstructorParametersNeeded
                     else
                       and_then
                         (case inputs of
                            Some (JArr xs) \<Rightarrow> input_lines 0 xs
                          | _ \<Rightarrow> Inl (TypeError ''constructorAbi.inputs.map is not a function''))
                         (\<lambda>lines.
                            Inr (ConstructorRequires (template len) (join [CHR 0x0A] lines))))))))"

text \<open>\<open>JSON.parse(text)\<close>: the argument is converted to a string first.\<close>

definition parse_text :: "world \<Rightarrow> string option \<Rightarrow> exn + json" where
  "parse_text w text = JSON_parse w (case text of None \<Rightarrow> ''undefined'' | Some t \<Rightarrow> t)"

text \<open>The object literal \<open>{ sourceCode: text }\<close>.\<close>

definition source_object :: "string option \<Rightarrow> json" where
  "source_object text = (case text of None \<Rightarrow> JObj [] | Some t \<Rightarrow> JObj [(''sourceCode'', JStr t)])"

text \<open>
  The checks of \<open>handleContractData\<close> before it writes to the session: the contract data,
  or what was thrown.
\<close>

definition read_contract_data :: "world \<Rightarrow> input_type option \<Rightarrow> string option \<Rightarrow> exn + json" where
  "read_contract_data w inputType text =
     (if inputType = Some bytecode_abi then
        and_then (parse_text w text) (\<lambda>data.
        and_then (get (Some data) ''bytecode'') (\<lambda>bytecode.
        and_then (if \<not> truthy bytecode then Inr None else get (Some data) ''abi'') (\<lambda>abi.
          if \<not> truthy bytecode \<or> \<not> truthy abi then Inl (Error ''Missing bytecode or abi fields'')
          else
            (case bytecode of
               Some (JStr b) \<Rightarrow>
                 if \<not> startsWith b ''0x'' then Inl (Error ''Bytecode must start with 0x'')
                 else Inr data
             | _ \<Rightarrow> Inl (TypeError ''contractData.bytecode.startsWith is not a function'')))))
      else Inr (source_object text))"

text \<open>
  A handler returns the session store as it leaves it and the messages it sent, or the
  exception that escaped it; in these handlers an exception escapes only before the
  first write to the store.
\<close>

type_synonym outcome = "exn + (sessions \<times> reply list)"

definition handleContractData :: "world \<Rightarrow> chat \<Rightarrow> string option \<Rightarrow> sessions \<Rightarrow> outcome" where
  "handleContractData w chatId text sessions =
     (case sessions chatId of
        None \<Rightarrow> Inr (sessions, [])
      | Some session \<Rightarrow>
          let suggestion = (if contractInputType session = Some bytecode_abi then ''JSON''
                            else ''Solidity code'')
          in
          (case read_contract_data w (contractInputType session) text of
             Inl error \<Rightarrow> Inr (sessions, [ErrorParsingContractData (message error) suggestion])
           | Inr data \<Rightarrow>
               let session' = session\<lparr>contractData := Some data,
                                      step := awaiting_constructor_params\<rparr>;
                   sessions' = sessions(chatId \<mapsto> session')
               in
               (case getConstructorInfo (Some data) (contractInputType session') of
                  Inl error \<Rightarrow>
                    Inr (sessions', [ErrorParsingContractData (message error) suggestion])
                | Inr info \<Rightarrow> Inr (sessions', [ContractDataReceived info]))))"

definition handleConstructorParams :: "world \<Rightarrow> chat \<Rightarrow> string option \<Rightarrow> sessions \<Rightarrow> outcome" where
  "handleConstructorParams w chatId text sessions =
     (case sessions chatId of
        None \<Rightarrow> Inr (sessions, [])
      | Some session \<Rightarrow>
          (case parse_text w text of
             Inl error \<Rightarrow> Inr (sessions, [ErrorParsingConstructorParameters (message error)])
           | Inr (JArr params) \<Rightarrow>
               Inr (sessions(chatId \<mapsto> session\<lparr>constructorParams := Some (JArr params),
                                                  step := awaiting_contract_name\<rparr>),
                    [ConstructorParametersSet])
           | Inr _ \<Rightarrow>
               Inr (sessions, [ErrorParsingConstructorParameters ''Parameters must be a JSON array''])))"

definition handleContractName :: "chat \<Rightarrow> string option \<Rightarrow> sessions \<Rightarrow> outcome" where
  "handleContractName chatId contractName_arg sessions =
     (case sessions chatId of
        None \<Rightarrow> Inr (sessions, [])
      | Some session \<Rightarrow>
          (case contractName_arg of
             None \<Rightarrow> Inl (TypeError ''Cannot read properties of undefined (reading 'trim')'')
           | Some text \<Rightarrow>
               let trimmedName = trim text in
               if length trimmedName = 0 then Inr (sessions, [ContractNameCannotBeEmpty])
               else if length trimmedName > 100 then Inr (sessions, [ContractNameTooLong])
               else
                 Inr (sessions(chatId \<mapsto> session\<lparr>contractName := Some trimmedName,
                                                    step := awaiting_network_selection\<rparr>),
                      [ContractNameSet trimmedName])))"

text \<open>
  \<open>handleAddressForContracts\<close>. \<open>viewUserContracts\<close>, which it starts, queries the registry
  and sends the answer; it reads and writes no session, and is the message
  \<open>ViewUserContracts\<close> here.
\<close>

definition handleAddressForContracts :: "chat \<Rightarrow> string option \<Rightarrow> sessions \<Rightarrow> outcome" where
  "handleAddressForContracts chatId address_arg sessions =
     (case sessions chatId of
        None \<Rightarrow> Inr (sessions, [])
      | Some session \<Rightarrow>
          if action session \<noteq> Some ''view_contracts'' then Inr (sessions, [])
          else
            (case address_arg of
               None \<Rightarrow> Inl (TypeError ''Cannot read properties of undefined (reading 'startsWith')'')
             | Some addr \<Rightarrow>
                 if \<not> startsWith addr ''0x'' \<or> length addr \<noteq> 42
                 then Inr (sessions, [InvalidAddressFormat])
                 else Inr (sessions(chatId := None), [ViewUserContracts addr])))"

subsection \<open>The registry client and the deployment\<close>

definition zero_address :: string where
  "zero_address = ''0x0000000000000000000000000000000000000000''"

text \<open>
  \<open>registerContractWithRegistry\<close>: the \<open>try\<close> block, and the \<open>catch\<close> that turns
  whatever was thrown into the result \<open>null\<close> (\<open>None\<close>). The arguments are the wallet,
  the contract address, the contract name, the network and the transaction hash.
\<close>

definition registerContractWithRegistry_try ::
  "world \<Rightarrow> wallet \<Rightarrow> string \<Rightarrow> string option \<Rightarrow> jsval \<Rightarrow> string
     \<Rightarrow> exn + string option" where
  "registerContractWithRegistry_try w wlt addr nm net tx =
     (if CONTRACT_REGISTRY_ADDRESS w = zero_address then Inr None
      else
        and_then (new_Contract w (CONTRACT_REGISTRY_ADDRESS w) wlt) (\<lambda>_.
        and_then (registry_registerContract w wlt nm addr net tx) (\<lambda>sent.
        and_then (tx_wait w sent) (\<lambda>receipt.
          case receipt of
            None \<Rightarrow> Inl (TypeError ''Cannot read properties of null (reading 'hash')'')
          | Some hash \<Rightarrow> Inr (Some hash)))))"

definition registerContractWithRegistry ::
  "world \<Rightarrow> wallet \<Rightarrow> string \<Rightarrow> string option \<Rightarrow> jsval \<Rightarrow> string
     \<Rightarrow> exn + string option" where
  "registerContractWithRegistry w wlt addr nm net tx =
     (case registerContractWithRegistry_try w wlt addr nm net tx of
        Inl error \<Rightarrow> Inr None
      | Inr hash \<Rightarrow> Inr hash)"

text \<open>
  A block of statements that sends messages and may throw: the messages sent so far,
  and the value or the exception.
\<close>

type_synonym 'a attempt = "reply list \<times> (exn + 'a)"

definition then_try :: "'a attempt \<Rightarrow> ('a \<Rightarrow> 'b attempt) \<Rightarrow> 'b attempt" where
  "then_try m f =
     (case m of
        (out, Inl e) \<Rightarrow> (out, Inl e)
      | (out, Inr x) \<Rightarrow> (case f x of (out', r) \<Rightarrow> (out @ out', r)))"

definition call :: "exn + 'a \<Rightarrow> 'a attempt" where
  "call r = ([], r)"

definition send :: "reply \<Rightarrow> unit attempt" where
  "send m = ([m], Inr ())"

text \<open>The \<open>catch\<close> block of \<open>deployContract\<close>: the first matching test names the failure.\<close>

definition classify :: "exn \<Rightarrow> failure" where
  "classify error =
     (let m = message error in
      if includes_text m ''Compilation errors:''
      then SolidityCompilationError (remove_first m (''Compilation errors:'' @ [CHR 0x0A]))
      else if includes_text m ''Solidity compilation failed:''
      then SolidityCompilationError (remove_first m ''Solidity compilation failed: '')
      else if includes_text m ''insufficient funds'' then InsufficientFunds
      else if includes_text m ''nonce'' then NonceError
      else if includes_text m ''gas'' then GasError
      else OtherError m)"

text \<open>
  The spread \<open>...session.constructorParams\<close> in the call of \<open>deploy\<close>: the elements of an
  array, the characters of a string, and a \<open>TypeError\<close> for \<open>null\<close>, \<open>undefined\<close> and
  every other value, none of them iterable. The program assigns only \<open>null\<close> and arrays
  to the field.
\<close>

definition spread_constructorParams :: "world \<Rightarrow> jsval \<Rightarrow> exn + json list" where
  "spread_constructorParams w v =
     (case v of
        Some (JArr params) \<Rightarrow> Inr params
      | Some (JStr s) \<Rightarrow> Inr (map (\<lambda>c. JStr [c]) s)
      | _ \<Rightarrow> Inl (TypeError (not_iterable w v)))"

text \<open>
  \<open>deployContract\<close> is an \<open>async\<close> function: a call runs it up to its first \<open>await\<close>, the
  one of \<open>contractFactory.deploy\<close>, and the rest runs when the awaited promise settles.
  \<open>deployContract_begin\<close> is the \<open>try\<close> block up to that \<open>await\<close>; it ends with the
  wallet, the factory and the arguments spread from \<open>session.constructorParams\<close>. A
  session whose \<open>contractData\<close> is still \<open>null\<close> fails at the read of \<open>abi\<close> or of
  \<open>sourceCode\<close>.
\<close>

definition deployContract_begin ::
  "world \<Rightarrow> session \<Rightarrow> netinfo \<Rightarrow> (wallet \<times> factory \<times> json list) attempt" where
  "deployContract_begin w session netInfo =
     then_try (call (new_JsonRpcProvider w (rpcUrl netInfo))) (\<lambda>_.
     let prov = rpcUrl netInfo in
     then_try (call (new_Wallet w (privateKey session) prov)) (\<lambda>_.
     let wlt = (privateKey session, prov) in
     then_try (send (DeployingTo (network_name netInfo))) (\<lambda>_.
     then_try
       (if contractInputType session = Some bytecode_abi then
          then_try (call (get (contractData session) ''abi'')) (\<lambda>abi.
          then_try (call (get (contractData session) ''bytecode'')) (\<lambda>bytecode.
          then_try (call (new_ContractFactory w abi bytecode wlt)) (\<lambda>_.
            call (Inr (abi, bytecode, wlt)))))
        else
          then_try (send CompilingSolidityCode) (\<lambda>_.
          then_try (call (get (contractData session) ''sourceCode'')) (\<lambda>sourceCode.
          then_try (call (compileSolidity (solc_compile w) sourceCode)) (\<lambda>(bytecode, abi).
          then_try (call (new_ContractFactory w abi (Some (JStr bytecode)) wlt)) (\<lambda>_.
            call (Inr (abi, Some (JStr bytecode), wlt)))))))
       (\<lambda>contractFactory.
     then_try (call (spread_constructorParams w (constructorParams session))) (\<lambda>args.
       call (Inr (wlt, contractFactory, args)))))))"

text \<open>
  The part of \<open>deployContract\<close> a call runs at once. It returns the store, the messages
  and, when the function is suspended at the \<open>await\<close>, what the rest holds: the session
  object, the network, the wallet, the factory and the arguments.
\<close>

type_synonym suspended = "session \<times> netinfo \<times> wallet \<times> factory \<times> json list"

definition deployContract_start ::
  "world \<Rightarrow> chat \<Rightarrow> sessions \<Rightarrow> sessions \<times> reply list \<times> suspended option" where
  "deployContract_start w chatId sessions =
     (case sessions chatId of
        None \<Rightarrow> (sessions, [], None)
      | Some session \<Rightarrow>
          (case network_info (session_network session) of
             None \<Rightarrow> (sessions(chatId := None), [NetworkConfigurationError], None)
           | Some netInfo \<Rightarrow>
               (case deployContract_begin w session netInfo of
                  (out, Inl error) \<Rightarrow>
                    (sessions(chatId := None), out @ [DeploymentFailed (classify error)], None)
                | (out, Inr (wlt, contractFactory, args)) \<Rightarrow>
                    (sessions, out, Some (session, netInfo, wlt, contractFactory, args)))))"

text \<open>
  The rest of the \<open>try\<close> block, from the \<open>await\<close> of \<open>contractFactory.deploy\<close> on. The
  deployed contract is given by the hash of its deployment transaction.
\<close>

definition deployContract_rest :: "world \<Rightarrow> suspended \<Rightarrow> unit attempt" where
  "deployContract_rest w k =
     (case k of (session, netInfo, wlt, contractFactory, args) \<Rightarrow>
        then_try (call (factory_deploy w contractFactory args)) (\<lambda>tx.
        then_try (send (TransactionSent tx)) (\<lambda>_.
        then_try (call (waitForDeployment w tx)) (\<lambda>_.
        then_try (call (getAddress w tx)) (\<lambda>addr.
        then_try
          (if CONTRACT_REGISTRY_ADDRESS w \<noteq> zero_address then
             then_try (send RegisteringContract) (\<lambda>_.
               call (registerContractWithRegistry w wlt addr (contractName session)
                       (session_network session) tx))
           else call (Inr None))
          (\<lambda>registryTxHash.
        then_try (call (getBlockNumber w (snd wlt))) (\<lambda>blockNumber.
          send (ContractDeployed addr tx (network_name netInfo) blockNumber
                  (case registryTxHash of
                     Some hash \<Rightarrow>
                       if hash \<noteq> [] then ContractRegisteredNote hash (contractName session)
                       else if CONTRACT_REGISTRY_ADDRESS w = zero_address then RegistryNotConfigured
                       else NoNote
                   | None \<Rightarrow>
                       if CONTRACT_REGISTRY_ADDRESS w = zero_address then RegistryNotConfigured
                       else NoNote)))))))))"

text \<open>The rest with its \<open>catch\<close> and \<open>finally\<close> blocks.\<close>

definition deployContract_resume ::
  "world \<Rightarrow> chat \<Rightarrow> suspended \<Rightarrow> sessions \<Rightarrow> sessions \<times> reply list" where
  "deployContract_resume w chatId k sessions =
     (case deployContract_rest w k of
        (out, Inl error) \<Rightarrow> (sessions(chatId := None), out @ [DeploymentFailed (classify error)])
      | (out, Inr _) \<Rightarrow> (sessions(chatId := None), out))"

text \<open>A whole run of \<open>deployContract\<close>, no other handler running in between.\<close>

definition deployContract :: "world \<Rightarrow> chat \<Rightarrow> sessions \<Rightarrow> sessions \<times> reply list" where
  "deployContract w chatId sessions =
     (case deployContract_start w chatId sessions of
        (sessions', out, None) \<Rightarrow> (sessions', out)
      | (sessions', out, Some k) \<Rightarrow>
          (case deployContract_resume w chatId k sessions' of
             (sessions'', out') \<Rightarrow> (sessions'', out @ out')))"

text \<open>
  \<open>handlePrivateKey\<close>. The store it returns is the one the handler leaves when it
  returns: \<open>deployContract\<close> has run up to its first \<open>await\<close>.
\<close>

definition handlePrivateKey :: "world \<Rightarrow> chat \<Rightarrow> string option \<Rightarrow> sessions \<Rightarrow> outcome" where
  "handlePrivateKey w chatId privateKey_arg sessions =
     (case sessions chatId of
        None \<Rightarrow> Inr (sessions, [])
      | Some session \<Rightarrow>
          (case privateKey_arg of
             None \<Rightarrow> Inl (TypeError ''Cannot read properties of undefined (reading 'startsWith')'')
           | Some key \<Rightarrow>
               if \<not> startsWith key ''0x'' \<or> length key \<noteq> 66
               then Inr (sessions, [InvalidPrivateKeyFormat])
               else
                 let session' = session\<lparr>privateKey := Some (JStr key), step := deploying\<rparr>;
                     maskedKey = take 6 key @ replicate 28 (CHR ''*'') @ drop (length key - 4) key
                 in
                 (case deployContract_start w chatId (sessions(chatId \<mapsto> session')) of
                    (sessions', out, _) \<Rightarrow> Inr (sessions', PrivateKeyReceived maskedKey # out))))"

subsection \<open>The message handler\<close>

text \<open>
  \<open>bot.on('message', ...)\<close>, the handler of the conversation: \<open>text\<close> is \<open>msg.text\<close>,
  \<open>undefined\<close> for a message without text. It skips a text that starts with \<open>/\<close>, as a
  command that the \<open>bot.onText\<close> handlers have dealt with.
\<close>

definition on_message :: "world \<Rightarrow> chat \<Rightarrow> string option \<Rightarrow> sessions \<Rightarrow> outcome" where
  "on_message w chatId text sessions =
     (if (case text of None \<Rightarrow> False | Some t \<Rightarrow> t \<noteq> [] \<and> startsWith t ''/'')
      then Inr (sessions, [])
      else
        (case sessions chatId of
           None \<Rightarrow> Inr (sessions, [])
         | Some session \<Rightarrow>
             (case step session of
                awaiting_contract_data \<Rightarrow> handleContractData w chatId text sessions
              | awaiting_constructor_params \<Rightarrow> handleConstructorParams w chatId text sessions
              | awaiting_contract_name \<Rightarrow> handleContractName chatId text sessions
              | awaiting_private_key_choice \<Rightarrow> Inr (sessions, [])
              | awaiting_private_key \<Rightarrow> handlePrivateKey w chatId text sessions
              | awaiting_address \<Rightarrow> handleAddressForContracts chatId text sessions
              | _ \<Rightarrow> Inr (sessions, []))))"

subsection \<open>The commands\<close>

text \<open>
  \<open>showNetworks\<close>, \<open>startDeploymentProcess\<close> and \<open>showMyContracts\<close>: the store as they
  leave it and the message they send. \<open>startDeploymentProcess\<close> and, when the registry is
  configured, \<open>showMyContracts\<close> delete the session of the chat and set a new one.
\<close>

definition showNetworks :: "chat \<Rightarrow> sessions \<Rightarrow> sessions \<times> reply list" where
  "showNetworks chatId sessions = (sessions, [AvailableNetworks])"

definition startDeploymentProcess :: "chat \<Rightarrow> sessions \<Rightarrow> sessions \<times> reply list" where
  "startDeploymentProcess chatId sessions =
     ((sessions(chatId := None))(chatId \<mapsto> deployment_session), [ContractDeploymentProcess])"

definition showMyContracts :: "world \<Rightarrow> chat \<Rightarrow> sessions \<Rightarrow> sessions \<times> reply list" where
  "showMyContracts w chatId sessions =
     (if CONTRACT_REGISTRY_ADDRESS w = zero_address
      then (sessions, [ContractRegistryNotConfigured])
      else ((sessions(chatId := None))(chatId \<mapsto> view_session), [ViewYourDeployedContracts]))"

text \<open>
  The callbacks registered with \<open>bot.onText\<close>, in the order of their registration, each
  with the text its pattern looks for: \<open>/\/start/\<close>, \<open>/\/help/\<close>, \<open>/\/networks/\<close>,
  \<open>/\/deploy/\<close> and \<open>/\/mycontracts/\<close>. None of the patterns is anchored, so a pattern
  matches a text that holds its characters at any place.
\<close>

definition onText_callbacks ::
  "(string \<times> (world \<Rightarrow> chat \<Rightarrow> sessions \<Rightarrow> sessions \<times> reply list)) list" where
  "onText_callbacks =
     [(''/start'', \<lambda>w chatId sessions. (sessions, [SmartContractDeploymentBot])),
      (''/help'', \<lambda>w chatId sessions. (sessions, [HelpAndSecurityInformation])),
      (''/networks'', \<lambda>w chatId sessions. showNetworks chatId sessions),
      (''/deploy'', \<lambda>w chatId sessions. startDeploymentProcess chatId sessions),
      (''/mycontracts'', \<lambda>w chatId sessions. showMyContracts w chatId sessions)]"


text \<open>
  How the library \<open>node-telegram-bot-api\<close> delivers a message to the handlers the program
  has registered: first to the listener of \<open>message\<close>; then, when the message has a text
  that is not empty, to every \<open>onText\<close> callback whose pattern matches the text, in the
  order of registration. An exception that escapes the listener ends the delivery.
\<close>

fun text_callbacks ::
  "(string \<times> (world \<Rightarrow> chat \<Rightarrow> sessions \<Rightarrow> sessions \<times> reply list)) list
     \<Rightarrow> world \<Rightarrow> chat \<Rightarrow> string \<Rightarrow> sessions \<Rightarrow> sessions \<times> reply list" where
  "text_callbacks [] w chatId text sessions = (sessions, [])"
| "text_callbacks ((pattern, callback) # rest) w chatId text sessions =
     (if includes_text text pattern then
        (case callback w chatId sessions of
           (sessions', out) \<Rightarrow>
             (case text_callbacks rest w chatId text sessions' of
                (sessions'', out') \<Rightarrow> (sessions'', out @ out')))
      else text_callbacks rest w chatId text sessions)"

definition receive_message :: "world \<Rightarrow> chat \<Rightarrow> string option \<Rightarrow> sessions \<Rightarrow> outcome" where
  "receive_message w chatId text sessions =
     (case on_message w chatId text sessions of
        Inl error \<Rightarrow> Inl error
      | Inr (sessions', out) \<Rightarrow>
          (case text of
             None \<Rightarrow> Inr (sessions', out)
           | Some t \<Rightarrow>
               if t = [] then Inr (sessions', out)
               else
                 (case text_callbacks onText_callbacks w chatId t sessions' of
                    (sessions'', out') \<Rightarrow> Inr (sessions'', out @ out'))))"

subsection \<open>The specification's vocabulary\<close>

text \<open>The key format of the specification: \<open>0x\<close> followed by 64 hexadecimal digits.\<close>

definition hex_digit :: "char \<Rightarrow> bool" where
  "hex_digit c \<longleftrightarrow> c \<in> set ''0123456789abcdefABCDEF''"

definition spec_key_format :: "string \<Rightarrow> bool" where
  "spec_key_format t \<longleftrightarrow> length t = 66 \<and> take 2 t = ''0x'' \<and> list_all hex_digit (drop 2 t)"

text \<open>
  The compiler's output in the layout of solc's standard JSON: an object; \<open>errors\<close>,
  when present, an array of diagnostic objects; \<open>contracts\<close>, when present, an object
  that may hold under the file name an object of compiled units, each an object whose
  \<open>evm.bytecode.object\<close>, as far as present, is objects down to a string.
\<close>

fun is_object :: "json \<Rightarrow> bool" where
  "is_object (JObj kvs) = True"
| "is_object v = False"

fun field :: "json \<Rightarrow> string \<Rightarrow> jsval" where
  "field (JObj kvs) k = map_of kvs k"
| "field v k = None"

definition unit_conforming :: "json \<Rightarrow> bool" where
  "unit_conforming u \<longleftrightarrow> is_object u \<and>
     (case field u ''evm'' of
        None \<Rightarrow> True
      | Some evm \<Rightarrow> is_object evm \<and>
          (case field evm ''bytecode'' of
             None \<Rightarrow> True
           | Some bc \<Rightarrow> is_object bc \<and>
               (case field bc ''object'' of
                  None \<Rightarrow> True
                | Some (JStr b) \<Rightarrow> True
                | Some v \<Rightarrow> False)))"

definition conforming :: "json \<Rightarrow> bool" where
  "conforming output \<longleftrightarrow> is_object output \<and>
     (case field output ''errors'' of
        None \<Rightarrow> True
      | Some (JArr ds) \<Rightarrow> list_all is_object ds
      | Some v \<Rightarrow> False) \<and>
     (case field output ''contracts'' of
        None \<Rightarrow> True
      | Some cs \<Rightarrow> is_object cs \<and>
          (case field cs ''contract.sol'' of
             None \<Rightarrow> True
           | Some us \<Rightarrow> is_object us \<and> list_all unit_conforming (map snd (own_properties us))))"

text \<open>
  The diagnostics of an output, those of severity \<open>error\<close>, whether the output has a
  \<open>contracts\<close> object, and the compiled units of the file in the compiler's order.
\<close>

definition diagnostics :: "json \<Rightarrow> json list" where
  "diagnostics output = (case field output ''errors'' of Some (JArr ds) \<Rightarrow> ds | _ \<Rightarrow> [])"

definition is_error :: "json \<Rightarrow> bool" where
  "is_error d \<longleftrightarrow> field d ''severity'' = Some (JStr ''error'')"

definition has_contracts :: "json \<Rightarrow> bool" where
  "has_contracts output \<longleftrightarrow> field output ''contracts'' \<noteq> None"

definition compiled_units :: "json \<Rightarrow> (string \<times> json) list" where
  "compiled_units output =
     (case field output ''contracts'' of
        None \<Rightarrow> []
      | Some cs \<Rightarrow> (case field cs ''contract.sol'' of None \<Rightarrow> [] | Some us \<Rightarrow> own_properties us))"

definition bytecode_payload :: "json \<Rightarrow> string option" where
  "bytecode_payload u =
     (case field u ''evm'' of
        None \<Rightarrow> None
      | Some evm \<Rightarrow>
          (case field evm ''bytecode'' of
             None \<Rightarrow> None
           | Some bc \<Rightarrow>
               (case field bc ''object'' of
                  Some (JStr b) \<Rightarrow> (if b = [] then None else Some b)
                | _ \<Rightarrow> None)))"

text \<open>
  The post-compilation checks as the specification gives them, in its order: diagnostics
  of severity \<open>error\<close>, then no compiled unit, then the first unit, then its bytecode
  payload; the prefix \<open>0x\<close> is put in front of a payload that does not have it. The
  failures carry the messages of the program.
\<close>

definition post_compilation_checks :: "json \<Rightarrow> exn + (string \<times> jsval)" where
  "post_compilation_checks output =
     (if filter is_error (diagnostics output) \<noteq> []
      then Inl (Error (''Compilation errors:'' @ [CHR 0x0A] @
                       error_messages (filter is_error (diagnostics output))))
      else
        (case compiled_units output of
           [] \<Rightarrow>
             Inl (Error ''Solidity compilation failed: No contracts found in the source code'')
         | (nm, u) # rest \<Rightarrow>
             (case bytecode_payload u of
                None \<Rightarrow>
                  Inl (Error (''Solidity compilation failed: '' @
                              ''No bytecode generated. Check your contract code.''))
              | Some b \<Rightarrow>
                  Inr (if startsWith b ''0x'' then b else ''0x'' @ b, field u ''abi''))))"

text \<open>
  The compiler prints a bytecode as hexadecimal digits, with no prefix: the payload of
  the first unit, if there is one, does not begin with \<open>0x\<close>.
\<close>

definition bare_payload :: "json \<Rightarrow> bool" where
  "bare_payload output \<longleftrightarrow>
     (case compiled_units output of
        [] \<Rightarrow> True
      | (nm, u) # rest \<Rightarrow>
          (case bytecode_payload u of None \<Rightarrow> True | Some b \<Rightarrow> \<not> startsWith b ''0x''))"

text \<open>Whether the messages of a run report a deployed contract.\<close>

fun is_ContractDeployed :: "reply \<Rightarrow> bool" where
  "is_ContractDeployed (ContractDeployed addr tx net bn note) = True"
| "is_ContractDeployed m = False"

subsection \<open>Sample inputs\<close>

text \<open>
  A world for the examples. Its \<open>JSON.parse\<close> knows three texts; its wallet constructor
  throws on a key that is not of the key format, as the library's does; its registry
  rejects every registration.
\<close>

definition sample_abi :: json where
  "sample_abi = JArr [JObj [(''inputs'', JArr []), (''stateMutability'', JStr ''nonpayable''),
                            (''type'', JStr ''constructor'')]]"

definition sample_parse :: "string \<Rightarrow> exn + json" where
  "sample_parse t =
     (if t = ''{\"bytecode\":\"0x6080\",\"abi\":{}}''
      then Inr (JObj [(''bytecode'', JStr ''0x6080''), (''abi'', JObj [])])
      else if t = ''{\"bytecode\":\"0x6080\",\"abi\":[]}''
      then Inr (JObj [(''bytecode'', JStr ''0x6080''), (''abi'', JArr [])])
      else if t = ''[]'' then Inr (JArr [])
      else Inl (SyntaxError ''Unexpected token''))"

definition sample_output :: json where
  "sample_output =
     JObj [(''contracts'',
            JObj [(''contract.sol'',
                   JObj [(''Token'',
                          JObj [(''abi'', sample_abi),
                                (''evm'', JObj [(''bytecode'', JObj [(''object'', JStr ''6080'')])])])])])]"

definition failed_output :: json where
  "failed_output =
     JObj [(''errors'',
            JArr [JObj [(''severity'', JStr ''warning''), (''message'', JStr ''SPDX license identifier not provided'')],
                  JObj [(''severity'', JStr ''error''), (''message'', JStr ''ParserError: Expected pragma'')]])]"

text \<open>
  What the compiler gives for a source that defines no contract, such as
  \<open>pragma solidity ^0.8.0;\<close>: a warning, the source unit, and no \<open>contracts\<close> key.
\<close>

definition unitless_output :: json where
  "unitless_output =
     JObj [(''errors'',
            JArr [JObj [(''severity'', JStr ''warning''),
                        (''message'', JStr ''SPDX license identifier not provided'')]]),
           (''sources'', JObj [(''contract.sol'', JObj [(''id'', JNum ''0'')])])]"

text \<open>Two more compilers: one that reports an error, one that finds no contract.\<close>

definition failed_compile :: "jsval \<Rightarrow> exn + json" where
  "failed_compile sourceCode = Inr failed_output"

definition unitless_compile :: "jsval \<Rightarrow> exn + json" where
  "unitless_compile sourceCode = Inr unitless_output"

definition sample_world :: world where
  "sample_world =
     \<lparr>JSON_parse = sample_parse,
      solc_compile = (\<lambda>sourceCode. Inr sample_output),
      new_JsonRpcProvider = (\<lambda>url. Inr ()),
      new_Wallet = (\<lambda>key prov.
         case key of
           Some (JStr k) \<Rightarrow>
             if spec_key_format k then Inr () else Inl (Error ''invalid private key'')
         | _ \<Rightarrow> Inl (Error ''invalid private key'')),
      new_ContractFactory = (\<lambda>abi bytecode wlt. Inr ()),
      factory_deploy = (\<lambda>contractFactory args.
         Inr ''0x1111111111111111111111111111111111111111111111111111111111111111''),
      waitForDeployment = (\<lambda>tx. Inr ()),
      getAddress = (\<lambda>tx. Inr ''0x2222222222222222222222222222222222222222''),
      getBlockNumber = (\<lambda>prov. Inr ''4242''),
      new_Contract = (\<lambda>addr wlt. Inr ()),
      registry_registerContract = (\<lambda>wlt nm addr net tx.
         Inl (Error ''execution reverted: Contract already registered'')),
      tx_wait = (\<lambda>sent. Inr None),
      CONTRACT_REGISTRY_ADDRESS = ''0x1234567890123456789012345678901234567890'',
      not_iterable = (\<lambda>v. template v @ '' is not iterable'')\<rparr>"

text \<open>
  A session waiting for the contract data, one waiting for the key and one waiting for
  the choice of a network, and the stores that hold a fresh session and each of these
  for chat \<open>7\<close>.
\<close>

definition data_session :: session where
  "data_session =
     deployment_session\<lparr>contractInputType := Some bytecode_abi, step := awaiting_contract_data\<rparr>"

definition key_session :: session where
  "key_session =
     \<lparr>step = awaiting_private_key,
      contractData = Some (JObj [(''bytecode'', JStr ''0x6080''), (''abi'', JArr [])]),
      constructorParams = Some (JArr []),
      session_network = Some (JStr ''mantle-testnet''),
      privateKey = Some JNull,
      contractInputType = Some bytecode_abi,
      contractName = Some ''Demo'',
      action = None\<rparr>"

definition network_session :: session where
  "network_session =
     \<lparr>step = awaiting_network_selection,
      contractData = Some (JObj [(''bytecode'', JStr ''0x6080''), (''abi'', JArr [])]),
      constructorParams = Some (JArr []),
      session_network = Some JNull,
      privateKey = Some JNull,
      contractInputType = Some bytecode_abi,
      contractName = Some ''Demo'',
      action = None\<rparr>"

definition fresh_sessions :: sessions where
  "fresh_sessions = [7 \<mapsto> deployment_session]"

definition data_sessions :: sessions where
  "data_sessions = [7 \<mapsto> data_session]"

definition key_sessions :: sessions where
  "key_sessions = [7 \<mapsto> key_session]"

definition network_sessions :: sessions where
  "network_sessions = [7 \<mapsto> network_session]"

section \<open>Properties of the registry\<close>

subsection \<open>The scans\<close>

lemma updateLoop_length: "length (fst (updateLoop i a nn cs)) = length cs"
  by (induction i a nn cs rule: updateLoop.induct) (subst updateLoop.simps, simp)

lemma updateLoop_nth:
  "k < length cs \<Longrightarrow> (fst (updateLoop i a nn cs) ! k)\<lparr>name := name (cs ! k)\<rparr> = cs ! k"
  by (induction i a nn cs rule: updateLoop.induct)
     (subst updateLoop.simps, simp add: nth_list_update)

lemma updateLoop_addresses:
  "map contractAddress (fst (updateLoop i a nn cs)) = map contractAddress cs"
  by (induction i a nn cs rule: updateLoop.induct)
     (subst updateLoop.simps, simp add: map_update list_update_same_conv)

lemma updateLoop_deployers:
  "map deployer (fst (updateLoop i a nn cs)) = map deployer cs"
  by (induction i a nn cs rule: updateLoop.induct)
     (subst updateLoop.simps, simp add: map_update list_update_same_conv)

lemma updateLoop_first:
  "i \<le> j \<Longrightarrow> j < length cs \<Longrightarrow> contractAddress (cs ! j) = a
    \<Longrightarrow> \<forall>k. i \<le> k \<and> k < j \<longrightarrow> contractAddress (cs ! k) \<noteq> a
    \<Longrightarrow> updateLoop i a nn cs = (cs[j := (cs ! j)\<lparr>name := nn\<rparr>], True)"
proof (induction i a nn cs rule: updateLoop.induct)
  case (1 i addr newName contracts)
  show ?case
  proof (cases "i = j")
    case True
    with 1 show ?thesis by (subst updateLoop.simps) simp
  next
    case False
    with 1 have ne: "contractAddress (contracts ! i) \<noteq> addr" and lt: "i < length contracts" by auto
    from False 1 have "updateLoop (i + 1) addr newName contracts = (contracts[j := (contracts ! j)\<lparr>name := newName\<rparr>], True)" using ne lt by auto
    with ne lt show ?thesis by (subst updateLoop.simps) simp 
  qed
qed

lemma updateLoop_none:
  "\<forall>k. i \<le> k \<and> k < length cs \<longrightarrow> contractAddress (cs ! k) \<noteq> a
    \<Longrightarrow> updateLoop i a nn cs = (cs, False)"
proof (induction i a nn cs rule: updateLoop.induct)
  case (1 i addr newName contracts)
  then show ?case by (subst updateLoop.simps) auto
qed

lemma getLoop_first:
  "i \<le> j \<Longrightarrow> j < length cs \<Longrightarrow> contractAddress (cs ! j) = a
    \<Longrightarrow> \<forall>k. i \<le> k \<and> k < j \<longrightarrow> contractAddress (cs ! k) \<noteq> a
    \<Longrightarrow> getLoop i a cs = Inr (cs ! j)"
proof (induction i a cs rule: getLoop.induct)
  case (1 i addr contracts)
  show ?case
  proof (cases "i = j")
    case True
    with 1 show ?thesis by (subst getLoop.simps) simp
  next
    case False
    with 1 have ne: "contractAddress (contracts ! i) \<noteq> addr" and lt: "i < length contracts" by auto
    from False 1 have "getLoop (i + 1) addr contracts = Inr (contracts ! j)" using ne lt by auto
    with ne lt show ?thesis by (subst getLoop.simps) simp 
  qed
qed

lemma getLoop_none:
  "\<forall>k. i \<le> k \<and> k < length cs \<longrightarrow> contractAddress (cs ! k) \<noteq> a
    \<Longrightarrow> getLoop i a cs = Inl ContractNotFound"
proof (induction i a cs rule: getLoop.induct)
  case (1 i addr contracts)
  then show ?case by (subst getLoop.simps) auto
qed

lemma updateLoop_set:
  assumes "r' \<in> set (fst (updateLoop i a nn cs))"
  shows "\<exists>r \<in> set cs. r'\<lparr>name := name r\<rparr> = r"
proof -
  from assms obtain k where k: "k < length cs" "fst (updateLoop i a nn cs) ! k = r'"
    by (auto simp: in_set_conv_nth updateLoop_length)
  then have "r'\<lparr>name := name (cs ! k)\<rparr> = cs ! k"
    using updateLoop_nth [of k cs i a nn] by simp
  with k show ?thesis by (metis nth_mem)
qed

subsection \<open>Reachable storages are consistent\<close>

lemma consistent_init: "consistent init_registry"
  by (simp add: consistent_def init_registry_def)

lemma consistent_register:
  assumes "consistent s" "sender \<noteq> 0"
    and "registerContract sender t nm a net h s = Inr (s', evs)"
  shows "consistent s'"
proof -
  from assms(3) have free: "contractToOwner s a = 0" and a0: "a \<noteq> 0"
    and s': "s' = s\<lparr>userContracts := (userContracts s)(sender := userContracts s sender @
        [\<lparr>name = nm, contractAddress = a, network = net, timestamp = t, txHash = h, deployer = sender\<rparr>]),
        contractToOwner := (contractToOwner s)(a := sender)\<rparr>"
    by (auto simp: registerContract_def Let_def split: if_splits)
  from assms(1) have
    A: "\<And>u r. r \<in> set (userContracts s u) \<Longrightarrow> u \<noteq> 0 \<and> contractToOwner s (contractAddress r) = u \<and> deployer r = u"
    and B: "\<And>b. contractToOwner s b \<noteq> 0 \<Longrightarrow> b \<in> contractAddress ` set (userContracts s (contractToOwner s b))"
    and C: "\<And>u. distinct (map contractAddress (userContracts s u))"
    unfolding consistent_def by blast+
  have notin: "\<And>u r. r \<in> set (userContracts s u) \<Longrightarrow> contractAddress r \<noteq> a"
    using A free by fastforce
  have 1: "\<forall>u r. r \<in> set (userContracts s' u) \<longrightarrow>
        u \<noteq> 0 \<and> contractToOwner s' (contractAddress r) = u \<and> deployer r = u"
    using A notin assms(2) by (auto simp: s')
  have 2: "\<forall>b. contractToOwner s' b \<noteq> 0 \<longrightarrow>
        b \<in> contractAddress ` set (userContracts s' (contractToOwner s' b))"
    using B by (auto simp: s')
  have 3: "\<forall>u. distinct (map contractAddress (userContracts s' u))"
    using C notin by (auto simp: s')
  from 1 2 3 show ?thesis unfolding consistent_def by blast
qed

lemma consistent_rename:
  assumes "consistent s"
    and "updateContractName sender a nn s = Inr (s', evs)"
  shows "consistent s'"
proof -
  define cs' where "cs' = fst (updateLoop 0 a nn (userContracts s sender))"
  from assms(2) have s': "s' = s\<lparr>userContracts := (userContracts s)(sender := cs')\<rparr>"
    by (auto simp: updateContractName_def cs'_def split: if_splits prod.splits bool.splits)
  from assms(1) have
    A: "\<And>u r. r \<in> set (userContracts s u) \<Longrightarrow> u \<noteq> 0 \<and> contractToOwner s (contractAddress r) = u \<and> deployer r = u"
    and B: "\<And>b. contractToOwner s b \<noteq> 0 \<Longrightarrow> b \<in> contractAddress ` set (userContracts s (contractToOwner s b))"
    and C: "\<And>u. distinct (map contractAddress (userContracts s u))"
    unfolding consistent_def by blast+
  have addrs: "map contractAddress cs' = map contractAddress (userContracts s sender)"
    by (simp add: cs'_def updateLoop_addresses)
  then have img: "contractAddress ` set cs' = contractAddress ` set (userContracts s sender)"
    by (metis set_map)
  have old: "\<And>r'. r' \<in> set cs' \<Longrightarrow> \<exists>r \<in> set (userContracts s sender). r'\<lparr>name := name r\<rparr> = r"
    unfolding cs'_def by (rule updateLoop_set)
  have 1: "\<forall>u r. r \<in> set (userContracts s' u) \<longrightarrow>
        u \<noteq> 0 \<and> contractToOwner s' (contractAddress r) = u \<and> deployer r = u"
  proof (intro allI impI)
    fix u r assume r: "r \<in> set (userContracts s' u)"
    show "u \<noteq> 0 \<and> contractToOwner s' (contractAddress r) = u \<and> deployer r = u"
    proof (cases "u = sender")
      case False
      with r A show ?thesis by (simp add: s')
    next
      case True
      with r have "r \<in> set cs'" by (simp add: s')
      from old [OF this] obtain r0 where r0: "r0 \<in> set (userContracts s sender)" "r\<lparr>name := name r0\<rparr> = r0"
        by blast
      from r0(2) have "contractAddress r = contractAddress r0" "deployer r = deployer r0"
        by (metis DeployedContract.select_convs(2) DeployedContract.surjective DeployedContract.update_convs(1),
            metis DeployedContract.select_convs(6) DeployedContract.surjective DeployedContract.update_convs(1))
      with A [OF r0(1)] True show ?thesis by (simp add: s')
    qed
  qed
  have 2: "\<forall>b. contractToOwner s' b \<noteq> 0 \<longrightarrow>
        b \<in> contractAddress ` set (userContracts s' (contractToOwner s' b))"
    using B img by (auto simp: s')
  have 3: "\<forall>u. distinct (map contractAddress (userContracts s' u))"
    using C addrs by (auto simp: s')
  from 1 2 3 show ?thesis unfolding consistent_def by blast
qed

lemma reachable_consistent: "reachable s \<Longrightarrow> consistent s"
proof (induction rule: reachable.induct)
  case reachable_init
  show ?case by (rule consistent_init)
next
  case (reachable_step s sender block_timestamp c s' evs)
  then show ?case
    by (cases c) (auto intro: consistent_register consistent_rename)
qed

lemma sample_registry_eq:
  "sample_registry = \<lparr>userContracts = (\<lambda>_. [])(1 := [\<lparr>name = ''Demo'', contractAddress = 2,
       network = ''mantle-testnet'', timestamp = 1700000000, txHash = 3, deployer = 1\<rparr>]),
     contractToOwner = (\<lambda>_. 0)(2 := 1)\<rparr>"
  by (simp add: sample_registry_def storage_after_def registerContract_def init_registry_def)

lemma sample_registry_reachable: "reachable sample_registry"
proof -
  have "execute 1 1700000000 (Register ''Demo'' 2 ''mantle-testnet'' 3) init_registry
      = Inr (sample_registry, [ContractRegistered 1 2 ''Demo'' ''mantle-testnet'' 3 1700000000])"
    by (simp add: sample_registry_def storage_after_def registerContract_def init_registry_def)
  then show ?thesis
    by (rule reachable_step [OF reachable_init, rotated]) simp
qed

subsection \<open>Registration\<close>

text \<open>
  Claim C2. \<open>registerContract\<close> reverts exactly when the name is empty, the address is
  zero, the network is empty, the transaction hash is zero or the address has an owner.
  When it succeeds it appends one record, built from the arguments, the block timestamp
  and the caller as deployer, to the caller's array and to no other, makes the caller the
  owner of the address and of no other, and emits one \<open>ContractRegistered\<close> event with
  the caller, the arguments and the block timestamp.
\<close>
theorem registerContract_outcome:
  "(isl (registerContract c t n a net h s) \<longleftrightarrow>
      n = [] \<or> a = 0 \<or> net = [] \<or> h = 0 \<or> contractToOwner s a \<noteq> 0) \<and>
   (\<forall>s' evs. registerContract c t n a net h s = Inr (s', evs) \<longrightarrow>
      userContracts s' c = userContracts s c @
        [\<lparr>name = n, contractAddress = a, network = net, timestamp = t, txHash = h, deployer = c\<rparr>] \<and>
      (\<forall>u. u \<noteq> c \<longrightarrow> userContracts s' u = userContracts s u) \<and>
      contractToOwner s' a = c \<and>
      (\<forall>b. b \<noteq> a \<longrightarrow> contractToOwner s' b = contractToOwner s b) \<and>
      evs = [ContractRegistered c a n net h t])"
  by (auto simp: registerContract_def Let_def)

theorem registerContract_outcome_witness:
  "\<not> isl (registerContract 1 1700000000 ''Demo'' 2 ''mantle-testnet'' 3 init_registry) \<and>
   isl (registerContract 5 1700000300 ''Again'' 2 ''mantle-testnet'' 7 sample_registry) \<and>
   userContracts sample_registry 1 = [\<lparr>name = ''Demo'', contractAddress = 2,
       network = ''mantle-testnet'', timestamp = 1700000000, txHash = 3, deployer = 1\<rparr>] \<and>
   contractToOwner sample_registry 2 = 1"
proof -
  have reg: "registerContract 1 1700000000 ''Demo'' 2 ''mantle-testnet'' 3 init_registry
      = Inr (sample_registry, [ContractRegistered 1 2 ''Demo'' ''mantle-testnet'' 3 1700000000])"
    by (simp add: sample_registry_def storage_after_def registerContract_def init_registry_def)
  have free: "contractToOwner init_registry 2 = 0" "userContracts init_registry 1 = []"
    by (simp_all add: init_registry_def)
  from registerContract_outcome [of 1 1700000000 "''Demo''" 2 "''mantle-testnet''" 3 init_registry]
    registerContract_outcome [of 5 1700000300 "''Again''" 2 "''mantle-testnet''" 7 sample_registry]
    reg free
  show ?thesis by simp
qed

lemma registerContract_owned:
  "contractToOwner s a \<noteq> 0 \<Longrightarrow> \<exists>e. registerContract c t n a net h s = Inl e"
  by (simp add: registerContract_def)

lemma storage_after_owner:
  assumes "contractToOwner s a \<noteq> 0"
  shows "contractToOwner (storage_after c t cl s) a = contractToOwner s a"
proof (cases cl)
  case (Register n b net h)
  with assms show ?thesis
    by (auto simp: storage_after_def registerContract_def Let_def split: sum.splits if_splits)
next
  case (Rename b nn)
  then show ?thesis
    by (auto simp: storage_after_def updateContractName_def split: sum.splits if_splits prod.splits bool.splits)
qed

lemma run_owner:
  "contractToOwner s a \<noteq> 0 \<Longrightarrow> contractToOwner (run txs s) a = contractToOwner s a"
proof (induction txs arbitrary: s)
  case Nil
  show ?case by simp
next
  case (Cons x txs)
  obtain c t cl where x: "x = (c, t, cl)" by (cases x)
  from Cons.prems have "contractToOwner (storage_after c t cl s) a = contractToOwner s a"
    by (rule storage_after_owner)
  with Cons show ?case by (simp add: x)
qed

text \<open>
  Claim C1. A register call for an address that has an owner reverts and leaves the
  storage, and so every record in it, as it was. Once a register call for an address has
  succeeded (its sender is not the zero address), the address keeps that owner whatever
  transactions follow, so every later register call for the same address reverts and
  changes nothing: at most one register call for an address ever succeeds.
\<close>
theorem register_at_most_once:
  "(contractToOwner s a \<noteq> 0 \<longrightarrow>
      (\<exists>e. registerContract c t n a net h s = Inl e) \<and>
      storage_after c t (Register n a net h) s = s) \<and>
   (c1 \<noteq> 0 \<and> registerContract c1 t1 n1 a net1 h1 s0 = Inr (s1, evs) \<longrightarrow>
      contractToOwner (run txs s1) a = c1 \<and>
      (\<exists>e. registerContract c t n a net h (run txs s1) = Inl e) \<and>
      storage_after c t (Register n a net h) (run txs s1) = run txs s1)"
proof (rule conjI; rule impI)
  assume "contractToOwner s a \<noteq> 0"
  then obtain e where "registerContract c t n a net h s = Inl e"
    using registerContract_owned by blast
  then show "(\<exists>e. registerContract c t n a net h s = Inl e) \<and>
      storage_after c t (Register n a net h) s = s"
    by (simp add: storage_after_def)
next
  assume first: "c1 \<noteq> 0 \<and> registerContract c1 t1 n1 a net1 h1 s0 = Inr (s1, evs)"
  then have "contractToOwner s1 a = c1"
    by (auto simp: registerContract_def Let_def split: if_splits)
  with first have own: "contractToOwner (run txs s1) a = c1" "contractToOwner (run txs s1) a \<noteq> 0"
    using run_owner [of s1 a txs] by simp_all
  from own(2) obtain e where "registerContract c t n a net h (run txs s1) = Inl e"
    using registerContract_owned by blast
  with own(1) show "contractToOwner (run txs s1) a = c1 \<and>
      (\<exists>e. registerContract c t n a net h (run txs s1) = Inl e) \<and>
      storage_after c t (Register n a net h) (run txs s1) = run txs s1"
    by (simp add: storage_after_def)
qed

theorem register_at_most_once_witness:
  "(\<exists>e. registerContract 5 1700000300 ''Again'' 2 ''mantle-testnet'' 7 sample_registry = Inl e) \<and>
   storage_after 5 1700000300 (Register ''Again'' 2 ''mantle-testnet'' 7) sample_registry
     = sample_registry \<and>
   contractToOwner (run [(5, 1700000100, Rename 2 ''Mine''), (1, 1700000200, Rename 2 ''Token'')]
      sample_registry) 2 = 1 \<and>
   (\<exists>e. registerContract 5 1700000300 ''Again'' 2 ''mantle-testnet'' 7
      (run [(5, 1700000100, Rename 2 ''Mine''), (1, 1700000200, Rename 2 ''Token'')]
         sample_registry) = Inl e) \<and>
   storage_after 5 1700000300 (Register ''Again'' 2 ''mantle-testnet'' 7)
      (run [(5, 1700000100, Rename 2 ''Mine''), (1, 1700000200, Rename 2 ''Token'')]
         sample_registry)
     = run [(5, 1700000100, Rename 2 ''Mine''), (1, 1700000200, Rename 2 ''Token'')]
         sample_registry"
proof -
  have ne: "(1::address) \<noteq> 0" by simp
  have reg: "registerContract 1 1700000000 ''Demo'' 2 ''mantle-testnet'' 3 init_registry
      = Inr (sample_registry, [ContractRegistered 1 2 ''Demo'' ''mantle-testnet'' 3 1700000000])"
    by (simp add: sample_registry_def storage_after_def registerContract_def init_registry_def)
  have own: "contractToOwner sample_registry 2 \<noteq> 0"
    by (simp add: sample_registry_eq)
  from register_at_most_once
    [where s = sample_registry
       and ?c1.0 = 1 and ?t1.0 = 1700000000 and ?n1.0 = "''Demo''" and a = 2
       and ?net1.0 = "''mantle-testnet''" and ?h1.0 = 3 and ?s0.0 = init_registry
       and ?s1.0 = sample_registry
       and evs = "[ContractRegistered 1 2 ''Demo'' ''mantle-testnet'' 3 1700000000]"
       and txs = "[(5, 1700000100, Rename 2 ''Mine''), (1, 1700000200, Rename 2 ''Token'')]"
       and c = 5 and t = 1700000300 and n = "''Again''" and net = "''mantle-testnet''" and h = 7]
    ne reg own
  show ?thesis by blast
qed

subsection \<open>Counting\<close>

text \<open>
  Claim C9. In every storage and for every user, \<open>getUserContractCount\<close> is the length
  of the array \<open>getUserContracts\<close> returns.
\<close>
theorem count_is_length:
  "getUserContractCount user s = length (getUserContracts user s)"
  by (simp add: getUserContractCount_def getUserContracts_def)

theorem count_is_length_witness:
  "getUserContractCount 1 sample_registry = 1 \<and> length (getUserContracts 1 sample_registry) = 1"
  using count_is_length [of 1 sample_registry]
  by (simp add: getUserContracts_def sample_registry_eq)

subsection \<open>Renaming\<close>

lemma first_index:
  assumes "a \<in> contractAddress ` set cs"
  shows "\<exists>j < length cs. contractAddress (cs ! j) = a \<and> (\<forall>k < j. contractAddress (cs ! k) \<noteq> a)"
proof -
  from assms obtain i where i: "i < length cs" "contractAddress (cs ! i) = a"
    by (auto simp: in_set_conv_nth)
  define j where "j = (LEAST i. i < length cs \<and> contractAddress (cs ! i) = a)"
  from i have "j < length cs \<and> contractAddress (cs ! j) = a"
    unfolding j_def by (intro LeastI [of "\<lambda>i. i < length cs \<and> contractAddress (cs ! i) = a" i]) simp
  moreover have "\<forall>k < j. contractAddress (cs ! k) \<noteq> a"
  proof (intro allI impI)
    fix k assume "k < j"
    then have "\<not> (k < length cs \<and> contractAddress (cs ! k) = a)"
      unfolding j_def by (rule not_less_Least)
    with \<open>k < j\<close> \<open>j < length cs \<and> contractAddress (cs ! j) = a\<close>
    show "contractAddress (cs ! k) \<noteq> a" by simp
  qed
  ultimately show ?thesis by blast
qed

lemma updateContractName_frame:
  assumes "updateContractName c a nn s = Inr (s', evs)"
  shows "contractToOwner s' = contractToOwner s"
    and "u \<noteq> c \<Longrightarrow> userContracts s' u = userContracts s u"
    and "userContracts s' c = fst (updateLoop 0 a nn (userContracts s c))"
  using assms
  by (auto simp: updateContractName_def split: if_splits prod.splits bool.splits)

lemma updateContractName_succeeds:
  assumes "contractToOwner s a \<noteq> 0" "contractToOwner s a = c" "nn \<noteq> []"
  shows "\<exists>s' evs. updateContractName c a nn s = Inr (s', evs)"
  using assms
  by (auto simp: updateContractName_def split: if_splits prod.splits bool.splits)

text \<open>
  Claim C3. \<open>updateContractName\<close> reverts with "Contract not registered" for an address
  without owner, with "Not the contract owner" for a caller who is not the owner, and
  with "Name cannot be empty" for an empty new name. When the owner renames with a
  non-empty name the call succeeds; the owner index and every other user's array stay as
  they were; the caller's array keeps its length and every position keeps its record up
  to the name; and on a reachable storage exactly the record of the address gets the new
  name.
\<close>
theorem updateContractName_outcome:
  "(contractToOwner s a = 0 \<longrightarrow> updateContractName c a nn s = Inl ContractNotRegistered) \<and>
   (contractToOwner s a \<noteq> 0 \<and> contractToOwner s a \<noteq> c \<longrightarrow>
      updateContractName c a nn s = Inl NotTheContractOwner) \<and>
   (contractToOwner s a \<noteq> 0 \<and> contractToOwner s a = c \<and> nn = [] \<longrightarrow>
      updateContractName c a nn s = Inl NameCannotBeEmpty) \<and>
   (contractToOwner s a \<noteq> 0 \<and> contractToOwner s a = c \<and> nn \<noteq> [] \<longrightarrow>
      (\<exists>s' evs. updateContractName c a nn s = Inr (s', evs) \<and>
         contractToOwner s' = contractToOwner s \<and>
         (\<forall>u. u \<noteq> c \<longrightarrow> userContracts s' u = userContracts s u) \<and>
         length (userContracts s' c) = length (userContracts s c) \<and>
         (\<forall>k < length (userContracts s c).
            (userContracts s' c ! k)\<lparr>name := name (userContracts s c ! k)\<rparr> = userContracts s c ! k) \<and>
         (reachable s \<longrightarrow>
            (\<exists>k < length (userContracts s c).
               contractAddress (userContracts s c ! k) = a \<and>
               userContracts s' c = (userContracts s c)[k := (userContracts s c ! k)\<lparr>name := nn\<rparr>]))))"
proof (intro conjI impI)
  show "contractToOwner s a = 0 \<Longrightarrow> updateContractName c a nn s = Inl ContractNotRegistered"
    by (simp add: updateContractName_def)
  show "contractToOwner s a \<noteq> 0 \<and> contractToOwner s a \<noteq> c \<Longrightarrow>
      updateContractName c a nn s = Inl NotTheContractOwner"
    by (simp add: updateContractName_def)
  show "contractToOwner s a \<noteq> 0 \<and> contractToOwner s a = c \<and> nn = [] \<Longrightarrow>
      updateContractName c a nn s = Inl NameCannotBeEmpty"
    by (auto simp: updateContractName_def)
next
  assume ok: "contractToOwner s a \<noteq> 0 \<and> contractToOwner s a = c \<and> nn \<noteq> []"
  then obtain s' evs where res: "updateContractName c a nn s = Inr (s', evs)"
    using updateContractName_succeeds by blast
  note fr = updateContractName_frame [OF res]
  have len: "length (userContracts s' c) = length (userContracts s c)"
    by (simp add: fr(3) updateLoop_length)
  have nth: "\<forall>k < length (userContracts s c).
      (userContracts s' c ! k)\<lparr>name := name (userContracts s c ! k)\<rparr> = userContracts s c ! k"
    by (simp add: fr(3) updateLoop_nth)
  have found: "\<exists>k < length (userContracts s c).
      contractAddress (userContracts s c ! k) = a \<and>
      userContracts s' c = (userContracts s c)[k := (userContracts s c ! k)\<lparr>name := nn\<rparr>]"
    if "reachable s"
  proof -
    from that have "consistent s" by (rule reachable_consistent)
    with ok have "a \<in> contractAddress ` set (userContracts s c)"
      unfolding consistent_def by blast
    from first_index [OF this] obtain j where j: "j < length (userContracts s c)"
      "contractAddress (userContracts s c ! j) = a"
      "\<forall>k < j. contractAddress (userContracts s c ! k) \<noteq> a" by blast
    then have "updateLoop 0 a nn (userContracts s c) =
        ((userContracts s c)[j := (userContracts s c ! j)\<lparr>name := nn\<rparr>], True)"
      by (intro updateLoop_first) auto
    with j fr(3) show ?thesis by auto
  qed
  from res fr(1) fr(2) len nth found
  show "\<exists>s' evs. updateContractName c a nn s = Inr (s', evs) \<and>
         contractToOwner s' = contractToOwner s \<and>
         (\<forall>u. u \<noteq> c \<longrightarrow> userContracts s' u = userContracts s u) \<and>
         length (userContracts s' c) = length (userContracts s c) \<and>
         (\<forall>k < length (userContracts s c).
            (userContracts s' c ! k)\<lparr>name := name (userContracts s c ! k)\<rparr> = userContracts s c ! k) \<and>
         (reachable s \<longrightarrow>
            (\<exists>k < length (userContracts s c).
               contractAddress (userContracts s c ! k) = a \<and>
               userContracts s' c = (userContracts s c)[k := (userContracts s c ! k)\<lparr>name := nn\<rparr>]))"
    by blast
qed

theorem updateContractName_outcome_witness:
  "updateContractName 1 4 ''Token'' sample_registry = Inl ContractNotRegistered \<and>
   updateContractName 5 2 ''Token'' sample_registry = Inl NotTheContractOwner \<and>
   updateContractName 1 2 [] sample_registry = Inl NameCannotBeEmpty \<and>
   (\<exists>s' evs. updateContractName 1 2 ''Token'' sample_registry = Inr (s', evs) \<and>
      contractToOwner s' = contractToOwner sample_registry \<and>
      userContracts s' 1 = [\<lparr>name = ''Token'', contractAddress = 2,
         network = ''mantle-testnet'', timestamp = 1700000000, txHash = 3, deployer = 1\<rparr>])"
proof -
  have own: "contractToOwner sample_registry 2 = 1" "contractToOwner sample_registry 4 = 0"
    and cs: "userContracts sample_registry 1 = [\<lparr>name = ''Demo'', contractAddress = 2,
         network = ''mantle-testnet'', timestamp = 1700000000, txHash = 3, deployer = 1\<rparr>]"
    by (simp_all add: sample_registry_eq)
  from updateContractName_outcome [of sample_registry 4 1 "''Token''"] own
  have 1: "updateContractName 1 4 ''Token'' sample_registry = Inl ContractNotRegistered" by simp
  from updateContractName_outcome [of sample_registry 2 5 "''Token''"] own
  have 2: "updateContractName 5 2 ''Token'' sample_registry = Inl NotTheContractOwner" by simp
  from updateContractName_outcome [of sample_registry 2 1 "[]"] own
  have 3: "updateContractName 1 2 [] sample_registry = Inl NameCannotBeEmpty" by simp
  from updateContractName_outcome [of sample_registry 2 1 "''Token''"] own cs sample_registry_reachable
  have 4: "\<exists>s' evs. updateContractName 1 2 ''Token'' sample_registry = Inr (s', evs) \<and>
      contractToOwner s' = contractToOwner sample_registry \<and>
      userContracts s' 1 = [\<lparr>name = ''Token'', contractAddress = 2,
         network = ''mantle-testnet'', timestamp = 1700000000, txHash = 3, deployer = 1\<rparr>]"
    by auto
  from 1 2 3 4 show ?thesis by blast
qed

subsection \<open>Reading back\<close>

text \<open>
  \<open>getContract\<close> reverts for an address without owner. On a consistent storage it
  returns, for an owned address, the one record in the owner's array that has the
  address.
\<close>

lemma getContract_unregistered:
  "contractToOwner s a = 0 \<Longrightarrow> getContract a s = Inl ContractNotRegistered"
  by (simp add: getContract_def)

lemma record_at:
  assumes "distinct (map contractAddress cs)" "r \<in> set cs" "j < length cs"
    and "contractAddress (cs ! j) = contractAddress r"
  shows "cs ! j = r"
proof -
  from assms(2) obtain i where i: "i < length cs" "cs ! i = r" by (auto simp: in_set_conv_nth)
  with assms have "map contractAddress cs ! i = map contractAddress cs ! j" by simp
  with assms(1) i(1) assms(3) have "i = j" by (simp add: nth_eq_iff_index_eq del: nth_map)
  with i show ?thesis by simp
qed

lemma updateLoop_other:
  "r \<in> set cs \<Longrightarrow> contractAddress r \<noteq> b \<Longrightarrow> r \<in> set (fst (updateLoop i b nn cs))"
proof (induction i b nn cs rule: updateLoop.induct)
  case (1 i addr newName contracts)
  show ?case
  proof (cases "i < length contracts \<and> contractAddress (contracts ! i) = addr")
    case True
    from 1(2) obtain k where k: "k < length contracts" "contracts ! k = r" by (auto simp: in_set_conv_nth)
    with True 1(3) have "k \<noteq> i" by auto
    with k have "(contracts[i := (contracts ! i)\<lparr>name := newName\<rparr>]) ! k = r" by simp
    with k(1) have "r \<in> set (contracts[i := (contracts ! i)\<lparr>name := newName\<rparr>])"
      by (metis length_list_update nth_mem)
    with True show ?thesis by (subst updateLoop.simps) simp
  next
    case False
    with 1 show ?thesis by (subst updateLoop.simps) auto
  qed
qed

lemma getContract_record:
  assumes "consistent s" "contractToOwner s a = c" "c \<noteq> 0"
    and "r \<in> set (userContracts s c)" "contractAddress r = a"
  shows "getContract a s = Inr r"
proof -
  let ?cs = "userContracts s c"
  from assms(4,5) have "a \<in> contractAddress ` set ?cs" by auto
  from first_index [OF this] obtain j where j: "j < length ?cs" "contractAddress (?cs ! j) = a"
    "\<forall>k < j. contractAddress (?cs ! k) \<noteq> a" by blast
  then have "getLoop 0 a ?cs = Inr (?cs ! j)" by (intro getLoop_first) auto
  moreover from assms(1) have "distinct (map contractAddress ?cs)" unfolding consistent_def by blast
  from record_at [OF this assms(4) j(1)] j(2) assms(5) have "?cs ! j = r" by simp
  ultimately show ?thesis using assms(2,3) by (simp add: getContract_def)
qed

text \<open>
  A transaction keeps the storage consistent and keeps every record in its array, up to
  the name that its owner may give it.
\<close>

lemma consistent_storage_after:
  assumes "consistent s" "sender \<noteq> 0"
  shows "consistent (storage_after sender t cl s)"
proof (cases "execute sender t cl s")
  case (Inl e)
  with assms show ?thesis by (simp add: storage_after_def)
next
  case (Inr p)
  obtain s' evs where p: "p = (s', evs)" by (cases p)
  with Inr assms have "consistent s'"
    by (cases cl) (auto intro: consistent_register consistent_rename)
  with Inr p show ?thesis by (simp add: storage_after_def)
qed

lemma record_after:
  assumes "consistent s" "contractToOwner s a = c" "c \<noteq> 0"
    and "r \<in> set (userContracts s c)" "contractAddress r = a"
  shows "r\<lparr>name := name_after c a (name r) [(sender, t, cl)]\<rparr>
          \<in> set (userContracts (storage_after sender t cl s) c)"
proof (cases cl)
  case (Register n b net h)
  then show ?thesis using assms(4)
    by (auto simp: storage_after_def registerContract_def Let_def split: sum.splits if_splits)
next
  case (Rename b nn)
  show ?thesis
  proof (cases "sender = c \<and> b = a \<and> length nn > 0")
    case True
    let ?cs = "userContracts s c"
    from assms(4,5) have "a \<in> contractAddress ` set ?cs" by auto
    from first_index [OF this] obtain j where j: "j < length ?cs" "contractAddress (?cs ! j) = a"
      "\<forall>k < j. contractAddress (?cs ! k) \<noteq> a" by blast
    then have upd: "updateLoop 0 a nn ?cs = (?cs[j := (?cs ! j)\<lparr>name := nn\<rparr>], True)"
      by (intro updateLoop_first) auto
    from assms(1) have "distinct (map contractAddress ?cs)" unfolding consistent_def by blast
    from record_at [OF this assms(4) j(1)] j(2) assms(5) have rj: "?cs ! j = r" by simp
    from True assms(2,3) upd
    have "userContracts (storage_after sender t cl s) c = ?cs[j := (?cs ! j)\<lparr>name := nn\<rparr>]"
      by (simp add: Rename storage_after_def updateContractName_def)
    with j(1) rj True show ?thesis by (simp add: Rename set_update_memI)
  next
    case False
    then have nm: "name_after c a (name r) [(sender, t, cl)] = name r" by (auto simp: Rename)
    have "r \<in> set (userContracts (storage_after sender t cl s) c)"
    proof (cases "updateContractName sender b nn s")
      case (Inl e)
      with assms(4) show ?thesis by (simp add: Rename storage_after_def)
    next
      case (Inr p)
      obtain s' evs where p: "p = (s', evs)" by (cases p)
      note fr = updateContractName_frame [OF Inr [unfolded p]]
      from Inr p have ok: "contractToOwner s b = sender" "length nn > 0"
        by (auto simp: updateContractName_def split: if_splits)
      have "r \<in> set (userContracts s' c)"
      proof (cases "sender = c")
        case False
        with fr(2) [of c] assms(4) show ?thesis by simp
      next
        case True
        with \<open>\<not> (sender = c \<and> b = a \<and> length nn > 0)\<close> ok have "contractAddress r \<noteq> b"
          using assms(5) by auto
        from updateLoop_other [OF assms(4) this] fr(3) True show ?thesis by simp
      qed
      with Inr p show ?thesis by (simp add: Rename storage_after_def)
    qed
    with nm show ?thesis by simp
  qed
qed

lemma name_after_step:
  "name_after c a nm ((sender, t, cl) # txs) = name_after c a (name_after c a nm [(sender, t, cl)]) txs"
  by (cases cl) simp_all

lemma getContract_after:
  assumes "consistent s" "contractToOwner s a = c" "c \<noteq> 0"
    and "r \<in> set (userContracts s c)" "contractAddress r = a"
    and "\<forall>x \<in> set txs. fst x \<noteq> 0"
  shows "getContract a (run txs s) = Inr (r\<lparr>name := name_after c a (name r) txs\<rparr>)"
  using assms
proof (induction txs arbitrary: s r)
  case Nil
  then show ?case using getContract_record [of s a c r] by simp
next
  case (Cons x txs)
  obtain sender t cl where x: "x = (sender, t, cl)" by (cases x)
  let ?s = "storage_after sender t cl s"
  let ?r = "r\<lparr>name := name_after c a (name r) [(sender, t, cl)]\<rparr>"
  from Cons.prems x have sender: "sender \<noteq> 0" by simp
  have 1: "consistent ?s" using Cons.prems(1) sender by (rule consistent_storage_after)
  have 2: "contractToOwner ?s a = c" using storage_after_owner [of s a sender t cl] Cons.prems by simp
  have 3: "?r \<in> set (userContracts ?s c)" using Cons.prems(1-5) by (rule record_after)
  have 4: "contractAddress ?r = a" using Cons.prems by simp
  have 5: "\<forall>x \<in> set txs. fst x \<noteq> 0" using Cons.prems by simp
  from Cons.IH [OF 1 2 Cons.prems(3) 3 4 5]
  show ?case by (simp add: x name_after_step [of c a "name r" sender t cl txs])
qed

text \<open>
  Claim C4. After a successful \<open>registerContract\<close> on a reachable storage, and whatever
  transactions follow it, \<open>getContract\<close> for the address returns the record of that call:
  its address, network, transaction hash and deployer, with the block timestamp of the
  call, and its name, unless the owner has renamed the record since, in which case the
  name is the last one the owner gave. This holds wherever the record stands in its
  owner's array.
\<close>
theorem register_then_getContract:
  assumes "reachable s" and "c \<noteq> 0"
    and "registerContract c t n a net h s = Inr (s', evs)"
    and "\<forall>x \<in> set txs. fst x \<noteq> 0"
  shows "getContract a (run txs s') =
    Inr \<lparr>name = name_after c a n txs, contractAddress = a, network = net, timestamp = t,
         txHash = h, deployer = c\<rparr>"
proof -
  let ?new = "\<lparr>name = n, contractAddress = a, network = net, timestamp = t, txHash = h, deployer = c\<rparr>"
  from assms(1) have "consistent s" by (rule reachable_consistent)
  then have 1: "consistent s'" using assms(2,3) by (rule consistent_register)
  from assms(3) have 2: "contractToOwner s' a = c" and 3: "?new \<in> set (userContracts s' c)"
    by (auto simp: registerContract_def Let_def split: if_splits)
  from getContract_after [OF 1 2 assms(2) 3 _ assms(4)] show ?thesis by simp
qed


lemma later_registry:
  "userContracts (run later_calls second_registry) 1 =
     [\<lparr>name = ''Other'', contractAddress = 2, network = ''mantle-testnet'',
        timestamp = 1700000000, txHash = 3, deployer = 1\<rparr>,
      \<lparr>name = ''Second'', contractAddress = 4, network = ''mantle-testnet'',
        timestamp = 1700000100, txHash = 5, deployer = 1\<rparr>,
      \<lparr>name = ''Third'', contractAddress = 6, network = ''mantle-testnet'',
        timestamp = 1700000200, txHash = 7, deployer = 1\<rparr>]"
  by (simp add: later_calls_def second_registry_def sample_registry_eq storage_after_def
      registerContract_def updateContractName_def updateLoop.simps)

theorem register_then_getContract_witness:
  "getContract 4 second_registry =
     Inr \<lparr>name = ''Second'', contractAddress = 4, network = ''mantle-testnet'',
          timestamp = 1700000100, txHash = 5, deployer = 1\<rparr> \<and>
   getContract 4 (run later_calls second_registry) =
     Inr \<lparr>name = ''Second'', contractAddress = 4, network = ''mantle-testnet'',
          timestamp = 1700000100, txHash = 5, deployer = 1\<rparr> \<and>
   getContract 4 (run [(1, 1700000500, Rename 4 ''Renamed'')] second_registry) =
     Inr \<lparr>name = ''Renamed'', contractAddress = 4, network = ''mantle-testnet'',
          timestamp = 1700000100, txHash = 5, deployer = 1\<rparr>"
proof -
  have ne: "(1::address) \<noteq> 0" by simp
  have reg: "registerContract 1 1700000100 ''Second'' 4 ''mantle-testnet'' 5 sample_registry
      = Inr (second_registry, [ContractRegistered 1 4 ''Second'' ''mantle-testnet'' 5 1700000100])"
    by (simp add: second_registry_def storage_after_def registerContract_def sample_registry_eq)
  have senders: "\<forall>x \<in> set []. fst x \<noteq> (0::address)"
    "\<forall>x \<in> set later_calls. fst x \<noteq> 0"
    "\<forall>x \<in> set [(1::address, 1700000500::uint256, Rename 4 ''Renamed'')]. fst x \<noteq> 0"
    by (simp_all add: later_calls_def)
  note inst = register_then_getContract [OF sample_registry_reachable ne reg]
  from inst [of "[]"] inst [OF senders(2)] inst [OF senders(3)]
  show ?thesis by (simp add: later_calls_def)
qed

section \<open>Properties of the deployment bot\<close>

subsection \<open>The post-compilation checks\<close>

lemma get_object: "is_object v \<Longrightarrow> get (Some v) k = Inr (field v k)"
  by (cases v) simp_all

lemma filter_errors_objects:
  "list_all is_object ds \<Longrightarrow> filter_errors ds = Inr (filter is_error ds)"
  by (induction ds) (auto simp: and_then_def get_object is_error_def)

lemma marker_kept:
  "includes_text (''Compilation errors:'' @ rest) ''Compilation errors:''"
  by (simp add: includes_text.simps startsWith_def)

lemma no_marker_undefined:
  "\<not> includes_text ''Cannot read properties of undefined (reading 'contract.sol')'' ''Compilation errors:''"
  by (simp add: includes_text.simps startsWith_def)

lemma no_marker_contracts:
  "\<not> includes_text ''No contracts found in the source code'' ''Compilation errors:''"
  by (simp add: includes_text.simps startsWith_def)

lemma no_marker_bytecode:
  "\<not> includes_text ''No bytecode generated. Check your contract code.'' ''Compilation errors:''"
  by (simp add: includes_text.simps startsWith_def)

lemma unit_payload:
  assumes "unit_conforming u"
  shows "and_then (get (Some u) ''evm'') (\<lambda>evm.
         and_then (if \<not> truthy evm then Inr None else get evm ''bytecode'') (\<lambda>bytecode.
         and_then (if \<not> truthy bytecode then Inr None else get bytecode ''object'') (\<lambda>object.
           (case object of
              Some obj \<Rightarrow>
                if \<not> truthy (Some obj)
                then Inl (Error ''No bytecode generated. Check your contract code.'')
                else
                  and_then (get (Some u) ''abi'') (\<lambda>abi.
                    Inr (''0x'' @ ToString obj, abi))
            | None \<Rightarrow> Inl (Error ''No bytecode generated. Check your contract code.'')))))
       = (case bytecode_payload u of
            None \<Rightarrow> Inl (Error ''No bytecode generated. Check your contract code.'')
          | Some b \<Rightarrow> Inr (''0x'' @ b, field u ''abi''))"
proof -
  from assms obtain kvs where u: "u = JObj kvs"
    by (cases u) (simp_all add: unit_conforming_def)
  show ?thesis
  proof (cases "map_of kvs ''evm''")
    case None
    then show ?thesis by (simp add: u and_then_def bytecode_payload_def)
  next
    case (Some evm)
    with assms obtain ekvs where evm: "evm = JObj ekvs"
      by (cases evm) (simp_all add: unit_conforming_def u)
    show ?thesis
    proof (cases "map_of ekvs ''bytecode''")
      case None
      with Some evm show ?thesis by (simp add: u and_then_def bytecode_payload_def)
    next
      case bc: (Some bc)
      with assms Some evm obtain bkvs where b: "bc = JObj bkvs"
        by (cases bc) (simp_all add: unit_conforming_def u)
      show ?thesis
      proof (cases "map_of bkvs ''object''")
        case None
        with Some evm bc b show ?thesis by (simp add: u and_then_def bytecode_payload_def)
      next
        case obj: (Some obj)
        with assms Some evm bc b obtain t where t: "obj = JStr t"
          by (cases obj) (simp_all add: unit_conforming_def u)
        with Some evm bc b obj show ?thesis
          by (simp add: u and_then_def bytecode_payload_def)
      qed
    qed
  qed
qed

lemma diagnostics_stage:
  assumes "conforming outp"
  shows "and_then (get (Some outp) ''errors'') (\<lambda>output_errors.
     and_then
       (if truthy output_errors then
          and_then
            (case output_errors of
               Some (JArr es) \<Rightarrow> filter_errors es
             | _ \<Rightarrow> Inl (TypeError ''output.errors.filter is not a function''))
            (\<lambda>errors.
               if length errors > 0
               then Inl (Error (''Compilation errors:'' @ [CHR 0x0A] @ error_messages errors))
               else Inr ())
        else Inr ())
       rest)
    = (if filter is_error (diagnostics outp) \<noteq> []
       then Inl (Error (''Compilation errors:'' @ [CHR 0x0A] @
                        error_messages (filter is_error (diagnostics outp))))
       else rest ())"
proof -
  from assms obtain kvs where out: "outp = JObj kvs"
    by (cases outp) (simp_all add: conforming_def)
  show ?thesis
  proof (cases "map_of kvs ''errors''")
    case None
    then show ?thesis by (simp add: out and_then_def diagnostics_def)
  next
    case (Some es)
    with assms obtain ds where ds: "es = JArr ds" "list_all is_object ds"
      by (cases es) (simp_all add: conforming_def out)
    from ds(2) have "filter_errors ds = Inr (filter is_error ds)"
      by (rule filter_errors_objects)
    with Some ds(1) show ?thesis
      by (simp add: out and_then_def diagnostics_def)
  qed
qed

lemma units_stage:
  assumes "conforming outp"
  shows "and_then (get (Some outp) ''contracts'') (\<lambda>output_contracts.
     and_then (get output_contracts ''contract.sol'') (\<lambda>contracts.
       if \<not> truthy contracts \<or> length (Object_keys contracts) = 0
       then Inl (Error ''No contracts found in the source code'')
       else
         let contractName = hd (Object_keys contracts) in
         and_then (get contracts contractName) rest))
    = (if \<not> has_contracts outp
       then Inl (TypeError ''Cannot read properties of undefined (reading 'contract.sol')'')
       else
         (case compiled_units outp of
            [] \<Rightarrow> Inl (Error ''No contracts found in the source code'')
          | (nm, u) # others \<Rightarrow> rest (Some u)))"
proof -
  from assms obtain kvs where out: "outp = JObj kvs"
    by (cases outp) (simp_all add: conforming_def)
  show ?thesis
  proof (cases "map_of kvs ''contracts''")
    case None
    then show ?thesis by (simp add: out and_then_def has_contracts_def)
  next
    case (Some cs)
    with assms obtain ckvs where cs: "cs = JObj ckvs"
      by (cases cs) (simp_all add: conforming_def out)
    show ?thesis
    proof (cases "map_of ckvs ''contract.sol''")
      case None
      with Some cs show ?thesis
        by (simp add: out and_then_def compiled_units_def has_contracts_def)
    next
      case us: (Some us)
      with assms Some cs obtain ukvs where u: "us = JObj ukvs"
        by (cases us) (simp_all add: conforming_def out)
      show ?thesis
      proof (cases ukvs)
        case Nil
        with Some cs us u show ?thesis
          by (simp add: out and_then_def compiled_units_def has_contracts_def Object_keys_def)
      next
        case (Cons p others)
        obtain nm v where p: "p = (nm, v)" by (cases p)
        with Some cs us u Cons show ?thesis
          by (simp add: out and_then_def compiled_units_def has_contracts_def Object_keys_def)
      qed
    qed
  qed
qed

lemma first_unit_conforming:
  assumes "conforming outp" "compiled_units outp = (nm, u) # others"
  shows "unit_conforming u"
proof -
  from assms(1) obtain kvs where out: "outp = JObj kvs"
    by (cases outp) (simp_all add: conforming_def)
  from assms(2) obtain cs where cs: "map_of kvs ''contracts'' = Some cs"
    by (auto simp: compiled_units_def out split: option.splits)
  with assms(1) obtain ckvs where c: "cs = JObj ckvs"
    by (cases cs) (simp_all add: conforming_def out)
  from assms(2) cs c obtain us where us: "map_of ckvs ''contract.sol'' = Some us"
      "own_properties us = (nm, u) # others"
    by (auto simp: compiled_units_def out split: option.splits)
  with assms(1) cs c show ?thesis
    by (simp add: conforming_def out)
qed

lemma and_then_Inr: "and_then (Inr x) f = f x"
  by (simp add: and_then_def)

lemma compileSolidity_try_conforming:
  assumes "solc sourceCode = Inr outp" and "conforming outp"
  shows "compileSolidity_try solc sourceCode =
      (if filter is_error (diagnostics outp) \<noteq> []
       then Inl (Error (''Compilation errors:'' @ [CHR 0x0A] @
                        error_messages (filter is_error (diagnostics outp))))
       else if \<not> has_contracts outp
       then Inl (TypeError ''Cannot read properties of undefined (reading 'contract.sol')'')
       else
         (case compiled_units outp of
            [] \<Rightarrow> Inl (Error ''No contracts found in the source code'')
          | (nm, u) # others \<Rightarrow>
              (case bytecode_payload u of
                 None \<Rightarrow> Inl (Error ''No bytecode generated. Check your contract code.'')
               | Some b \<Rightarrow> Inr (''0x'' @ b, field u ''abi''))))"
proof -
  have start: "compileSolidity_try solc sourceCode =
      (if filter is_error (diagnostics outp) \<noteq> []
       then Inl (Error (''Compilation errors:'' @ [CHR 0x0A] @
                        error_messages (filter is_error (diagnostics outp))))
       else if \<not> has_contracts outp
       then Inl (TypeError ''Cannot read properties of undefined (reading 'contract.sol')'')
       else
         (case compiled_units outp of
            [] \<Rightarrow> Inl (Error ''No contracts found in the source code'')
          | (nm, u) # others \<Rightarrow>
              and_then (get (Some u) ''evm'') (\<lambda>evm.
              and_then (if \<not> truthy evm then Inr None else get evm ''bytecode'') (\<lambda>bytecode.
              and_then (if \<not> truthy bytecode then Inr None else get bytecode ''object'') (\<lambda>object.
                (case object of
                   Some obj \<Rightarrow>
                     if \<not> truthy (Some obj)
                     then Inl (Error ''No bytecode generated. Check your contract code.'')
                     else
                       and_then (get (Some u) ''abi'') (\<lambda>abi.
                         Inr (''0x'' @ ToString obj, abi))
                 | None \<Rightarrow> Inl (Error ''No bytecode generated. Check your contract code.'')))))))"
    by (simp only: compileSolidity_try_def assms(1) and_then_Inr
          diagnostics_stage [OF assms(2)] units_stage [OF assms(2)])
  show ?thesis
  proof (cases "compiled_units outp")
    case Nil
    with start show ?thesis by simp
  next
    case (Cons p others)
    obtain nm u where p: "p = (nm, u)" by (cases p)
    from assms(2) Cons p have "unit_conforming u"
      by (auto intro: first_unit_conforming)
    from unit_payload [OF this] Cons p start show ?thesis by simp
  qed
qed

lemma rethrown:
  "includes_text (message (Error (''Compilation errors:'' @ [CHR 0x0A] @ rest))) ''Compilation errors:''"
  using marker_kept [of "[CHR 0x0A] @ rest"] by simp

text \<open>
  For every source text whose compiler output has solc's layout, reports an error or has
  a \<open>contracts\<close> object, and has a payload without prefix, \<open>compileSolidity\<close> gives what
  the post-compilation checks of the specification give: it fails with the messages of
  the diagnostics of severity \<open>error\<close>; then fails with "No contracts found" when the
  \<open>contracts\<close> object holds no compiled unit of the file; then takes the first unit and
  fails with "No bytecode generated" when that unit has no bytecode payload; otherwise it
  returns the payload with \<open>0x\<close> in front, together with the unit's interface.
\<close>

lemma compileSolidity_checks:
  assumes "solc sourceCode = Inr outp" and "conforming outp"
    and "filter is_error (diagnostics outp) \<noteq> [] \<or> has_contracts outp"
    and "bare_payload outp"
  shows "compileSolidity solc sourceCode = post_compilation_checks outp"
proof (cases "filter is_error (diagnostics outp) \<noteq> []")
  case True
  then show ?thesis
    unfolding compileSolidity_def post_compilation_checks_def
      compileSolidity_try_conforming [of solc sourceCode outp, OF assms(1,2)]
    by (simp only: not_False_eq_True if_True sum.case rethrown)
next
  case False
  with assms(3) have hc: "has_contracts outp" by simp
  show ?thesis
  proof (cases "compiled_units outp")
    case Nil
    with False hc show ?thesis
      unfolding compileSolidity_def post_compilation_checks_def
        compileSolidity_try_conforming [of solc sourceCode outp, OF assms(1,2)]
      by (simp add: no_marker_contracts)
  next
    case (Cons p others)
    obtain nm u where p: "p = (nm, u)" by (cases p)
    show ?thesis
    proof (cases "bytecode_payload u")
      case None
      with False hc Cons p show ?thesis
        unfolding compileSolidity_def post_compilation_checks_def
          compileSolidity_try_conforming [of solc sourceCode outp, OF assms(1,2)]
        by (simp add: no_marker_bytecode)
    next
      case (Some b)
      with assms(4) Cons p have "\<not> startsWith b ''0x''" by (simp add: bare_payload_def)
      with Some False hc Cons p show ?thesis
        unfolding compileSolidity_def post_compilation_checks_def
          compileSolidity_try_conforming [of solc sourceCode outp, OF assms(1,2)]
        by simp
    qed
  qed
qed

text \<open>
  An output that reports no error and has no \<open>contracts\<close> object fails with the message
  of the \<open>TypeError\<close> that the read of the file's entry throws, where the checks of the
  specification fail with "No contracts found".
\<close>

lemma compileSolidity_without_contracts:
  assumes "solc sourceCode = Inr outp" and "conforming outp"
    and "filter is_error (diagnostics outp) = []" and "\<not> has_contracts outp"
  shows "compileSolidity solc sourceCode =
    Inl (Error (''Solidity compilation failed: '' @
                ''Cannot read properties of undefined (reading 'contract.sol')''))"
  using assms(3,4)
  unfolding compileSolidity_def
    compileSolidity_try_conforming [of solc sourceCode outp, OF assms(1,2)]
  by (simp add: no_marker_undefined)

lemma post_compilation_checks_without_contracts:
  assumes "filter is_error (diagnostics outp) = []" and "\<not> has_contracts outp"
  shows "post_compilation_checks outp =
    Inl (Error ''Solidity compilation failed: No contracts found in the source code'')"
  using assms by (simp add: post_compilation_checks_def compiled_units_def has_contracts_def)

lemma sample_output_conforming: "conforming sample_output"
  by (simp add: conforming_def sample_output_def unit_conforming_def sample_abi_def)

lemma failed_output_conforming: "conforming failed_output"
  by (simp add: conforming_def failed_output_def)

lemma unitless_output_conforming: "conforming unitless_output"
  by (simp add: conforming_def unitless_output_def)

lemma compileSolidity_sample:
  "compileSolidity (solc_compile sample_world) (Some (JStr ''contract Token {}'')) =
     Inr (''0x6080'', Some sample_abi)"
proof -
  have s: "solc_compile sample_world (Some (JStr ''contract Token {}'')) = Inr sample_output"
    by (simp add: sample_world_def)
  have h: "filter is_error (diagnostics sample_output) \<noteq> [] \<or> has_contracts sample_output"
    by (simp add: has_contracts_def sample_output_def)
  have b: "bare_payload sample_output"
    by (simp add: bare_payload_def sample_output_def compiled_units_def bytecode_payload_def
        startsWith_def)
  have "post_compilation_checks sample_output = Inr (''0x6080'', Some sample_abi)"
    by (simp add: post_compilation_checks_def sample_output_def diagnostics_def
        compiled_units_def bytecode_payload_def startsWith_def)
  with compileSolidity_checks
      [where solc = "solc_compile sample_world"
         and sourceCode = "Some (JStr ''contract Token {}'')" and outp = sample_output,
       OF s sample_output_conforming h b]
  show ?thesis by simp
qed

lemma compileSolidity_failed:
  "compileSolidity failed_compile (Some (JStr ''contract Token {'')) =
     Inl (Error (''Compilation errors:'' @ [CHR 0x0A] @ ''ParserError: Expected pragma''))"
proof -
  have f: "failed_compile (Some (JStr ''contract Token {'')) = Inr failed_output"
    by (simp add: failed_compile_def)
  have h: "filter is_error (diagnostics failed_output) \<noteq> [] \<or> has_contracts failed_output"
    by (simp add: diagnostics_def is_error_def failed_output_def)
  have b: "bare_payload failed_output"
    by (simp add: bare_payload_def failed_output_def compiled_units_def)
  have "post_compilation_checks failed_output =
      Inl (Error (''Compilation errors:'' @ [CHR 0x0A] @ ''ParserError: Expected pragma''))"
    by (simp add: post_compilation_checks_def failed_output_def diagnostics_def is_error_def
        error_messages_def)
  with compileSolidity_checks
      [where solc = failed_compile and sourceCode = "Some (JStr ''contract Token {'')"
         and outp = failed_output, OF f failed_output_conforming h b]
  show ?thesis by simp
qed

text \<open>
  Claim C7, at the source \<open>pragma solidity ^0.8.0;\<close>, which defines no contract. The
  compiler reports a warning and no error, and its output has no \<open>contracts\<close> key. The
  checks of the specification fail with "No contracts found". \<open>compileSolidity\<close> reads
  the entry of the file from the missing \<open>contracts\<close> object before it looks for
  compiled units, and fails with the message of the \<open>TypeError\<close> of that read.
\<close>
theorem compileSolidity_at_unitless_source:
  "compileSolidity unitless_compile (Some (JStr ''pragma solidity ^0.8.0;'')) =
     Inl (Error (''Solidity compilation failed: '' @
                 ''Cannot read properties of undefined (reading 'contract.sol')'')) \<and>
   post_compilation_checks unitless_output =
     Inl (Error ''Solidity compilation failed: No contracts found in the source code'')"
proof -
  have u: "unitless_compile (Some (JStr ''pragma solidity ^0.8.0;'')) = Inr unitless_output"
    by (simp add: unitless_compile_def)
  have e: "filter is_error (diagnostics unitless_output) = []"
    by (simp add: diagnostics_def is_error_def unitless_output_def)
  have h: "\<not> has_contracts unitless_output"
    by (simp add: has_contracts_def unitless_output_def)
  from compileSolidity_without_contracts
      [where solc = unitless_compile and sourceCode = "Some (JStr ''pragma solidity ^0.8.0;'')"
         and outp = unitless_output, OF u unitless_output_conforming e h]
    post_compilation_checks_without_contracts [OF e h]
  show ?thesis by simp
qed

subsection \<open>Free text in the selection steps\<close>

text \<open>
  The listener of \<open>message\<close> leaves a chat whose session is in the step
  \<open>contract_input\<close>, \<open>awaiting_network_selection\<close>, \<open>deployment_confirmation\<close> or
  \<open>awaiting_private_key_choice\<close> as it was and sends nothing, whatever the text.
\<close>

lemma on_message_selection_steps:
  assumes "sessions chatId = Some session"
    and "step session \<in> {contract_input, awaiting_network_selection, deployment_confirmation,
                          awaiting_private_key_choice}"
  shows "on_message w chatId text sessions = Inr (sessions, [])"
  using assms by (auto simp: on_message_def)


text \<open>
  A text that holds none of \<open>/deploy\<close> and \<open>/mycontracts\<close>, delivered in one of these
  steps, leaves the store as it was.
\<close>

lemma receive_message_selection_steps:
  assumes "sessions chatId = Some session"
    and "step session \<in> {contract_input, awaiting_network_selection, deployment_confirmation,
                          awaiting_private_key_choice}"
    and "\<not> includes_text t ''/deploy''" and "\<not> includes_text t ''/mycontracts''"
  shows "\<exists>out. receive_message w chatId (Some t) sessions = Inr (sessions, out)"
proof -
  have "on_message w chatId (Some t) sessions = Inr (sessions, [])"
    using assms(1,2) by (rule on_message_selection_steps)
  with assms(3,4) show ?thesis
    by (auto simp: receive_message_def onText_callbacks_def showNetworks_def
        split: prod.splits)
qed

text \<open>
  Claim C10, at the text \<open>hello /deploy\<close>, received while the session of the chat waits
  for the choice of a network. The text does not start with \<open>/\<close>: the listener of
  \<open>message\<close> takes it for free text, not for a command, and leaves the session alone. The
  pattern \<open>/\/deploy/\<close> is not anchored and matches it all the same, so that
  \<open>startDeploymentProcess\<close> replaces the session by a fresh one, in the step
  \<open>contract_input\<close> and with the contract data, the parameters and the name gone.
\<close>
theorem free_text_restarts_session:
  "\<not> startsWith ''hello /deploy'' ''/'' \<and>
   on_message sample_world 7 (Some ''hello /deploy'') network_sessions =
     Inr (network_sessions, []) \<and>
   receive_message sample_world 7 (Some ''hello /deploy'') network_sessions =
     Inr (fresh_sessions, [ContractDeploymentProcess]) \<and>
   fresh_sessions 7 \<noteq> network_sessions 7"
proof -
  have m: "\<not> includes_text ''hello /deploy'' ''/start''"
      "\<not> includes_text ''hello /deploy'' ''/help''"
      "\<not> includes_text ''hello /deploy'' ''/networks''"
      "includes_text ''hello /deploy'' ''/deploy''"
      "\<not> includes_text ''hello /deploy'' ''/mycontracts''"
    by (simp_all add: includes_text.simps startsWith_def)
  have 1: "on_message sample_world 7 (Some ''hello /deploy'') network_sessions =
      Inr (network_sessions, [])"
    by (simp add: on_message_def network_sessions_def network_session_def startsWith_def)
  have 2: "text_callbacks onText_callbacks sample_world 7 ''hello /deploy'' network_sessions =
      (fresh_sessions, [ContractDeploymentProcess])"
    by (simp add: onText_callbacks_def m startDeploymentProcess_def network_sessions_def
        fresh_sessions_def)
  have 3: "fresh_sessions 7 \<noteq> network_sessions 7"
    by (simp add: fresh_sessions_def network_sessions_def deployment_session_def
        network_session_def)
  from 1 2 3 show ?thesis by (simp add: receive_message_def startsWith_def)
qed

subsection \<open>Registration is best effort\<close>

lemma registerContractWithRegistry_returns:
  "\<exists>r. registerContractWithRegistry w wlt addr nm net tx = Inr r"
  by (cases "registerContractWithRegistry_try w wlt addr nm net tx")
     (simp_all add: registerContractWithRegistry_def)

text \<open>
  Claim C8. \<open>registerContractWithRegistry\<close> never throws: it returns a value for every
  input, and \<open>null\<close> whenever anything inside its \<open>try\<close> block failed. So a deployment
  whose transaction was sent and confirmed, and whose block number could be read, ends
  with the message that reports the deployed contract, whatever the registry operations
  did.
\<close>
theorem registry_failure_contained:
  "(\<exists>r. registerContractWithRegistry w wlt addr nm net tx = Inr r) \<and>
   (\<forall>e. registerContractWithRegistry_try w wlt addr nm net tx = Inl e \<longrightarrow>
      registerContractWithRegistry w wlt addr nm net tx = Inr None) \<and>
   (factory_deploy w contractFactory args = Inr tx \<and> waitForDeployment w tx = Inr () \<and>
    getAddress w tx = Inr addr \<and> getBlockNumber w (snd wlt) = Inr bn \<longrightarrow>
      (\<exists>pre note.
         deployContract_resume w chatId (session, netInfo, wlt, contractFactory, args) sessions =
           (sessions(chatId := None),
            pre @ [ContractDeployed addr tx (network_name netInfo) bn note])))"
proof (intro conjI allI impI)
  show "\<exists>r. registerContractWithRegistry w wlt addr nm net tx = Inr r"
    by (rule registerContractWithRegistry_returns)
  show "registerContractWithRegistry w wlt addr nm net tx = Inr None"
    if "registerContractWithRegistry_try w wlt addr nm net tx = Inl e" for e
    using that by (simp add: registerContractWithRegistry_def)
next
  assume ok: "factory_deploy w contractFactory args = Inr tx \<and> waitForDeployment w tx = Inr () \<and>
    getAddress w tx = Inr addr \<and> getBlockNumber w (snd wlt) = Inr bn"
  obtain r where r: "registerContractWithRegistry w wlt addr (contractName session)
      (session_network session) tx = Inr r"
    using registerContractWithRegistry_returns by blast
  show "\<exists>pre note.
         deployContract_resume w chatId (session, netInfo, wlt, contractFactory, args) sessions =
           (sessions(chatId := None),
            pre @ [ContractDeployed addr tx (network_name netInfo) bn note])"
  proof (cases "CONTRACT_REGISTRY_ADDRESS w \<noteq> zero_address")
    case True
    with ok r have "deployContract_resume w chatId (session, netInfo, wlt, contractFactory, args) sessions =
           (sessions(chatId := None),
            [TransactionSent tx, RegisteringContract] @ [ContractDeployed addr tx (network_name netInfo) bn
               (case r of
                     Some hash \<Rightarrow>
                       if hash \<noteq> [] then ContractRegisteredNote hash (contractName session)
                       else if CONTRACT_REGISTRY_ADDRESS w = zero_address then RegistryNotConfigured
                       else NoNote
                   | None \<Rightarrow>
                       if CONTRACT_REGISTRY_ADDRESS w = zero_address then RegistryNotConfigured
                       else NoNote)])"
      by (simp add: deployContract_resume_def deployContract_rest_def then_try_def call_def send_def)
    then show ?thesis by blast
  next
    case False
    with ok have "deployContract_resume w chatId (session, netInfo, wlt, contractFactory, args) sessions =
           (sessions(chatId := None),
            [TransactionSent tx] @ [ContractDeployed addr tx (network_name netInfo) bn RegistryNotConfigured])"
      by (simp add: deployContract_resume_def deployContract_rest_def then_try_def call_def send_def)
    then show ?thesis by blast
  qed
qed

theorem registry_failure_contained_witness:
  "registerContractWithRegistry sample_world (Some (JStr ''k''), ''https://rpc.sepolia.mantle.xyz'')
      ''0x2222222222222222222222222222222222222222'' (Some ''Demo'') (Some (JStr ''mantle-testnet''))
      ''0x1111111111111111111111111111111111111111111111111111111111111111'' = Inr None \<and>
   snd (deployContract_resume sample_world 7
      (key_session, snd (hd NETWORKS), (Some (JStr ''k''), ''https://rpc.sepolia.mantle.xyz''),
       (Some (JArr []), Some (JStr ''0x6080''), (Some (JStr ''k''), ''https://rpc.sepolia.mantle.xyz'')), [])
      key_sessions) =
     [TransactionSent ''0x1111111111111111111111111111111111111111111111111111111111111111'',
      RegisteringContract,
      ContractDeployed ''0x2222222222222222222222222222222222222222''
        ''0x1111111111111111111111111111111111111111111111111111111111111111''
        ''Mantle Sepolia Testnet'' ''4242'' NoNote]"
proof -
  let ?w = "(Some (JStr ''k''), ''https://rpc.sepolia.mantle.xyz'')"
  let ?a = "''0x2222222222222222222222222222222222222222''"
  let ?t = "''0x1111111111111111111111111111111111111111111111111111111111111111''"
  have t: "registerContractWithRegistry_try sample_world ?w ?a (Some ''Demo'')
      (Some (JStr ''mantle-testnet'')) ?t = Inl (Error ''execution reverted: Contract already registered'')"
    by (simp add: registerContractWithRegistry_try_def sample_world_def zero_address_def
        and_then_def)
  have w: "factory_deploy sample_world x y = Inr ?t" "waitForDeployment sample_world z = Inr ()"
      "getAddress sample_world z = Inr ?a" "getBlockNumber sample_world u = Inr ''4242''"
      "CONTRACT_REGISTRY_ADDRESS sample_world \<noteq> zero_address" for x y z u
    by (simp_all add: sample_world_def zero_address_def)
  note inst = registry_failure_contained
    [where w = sample_world and wlt = ?w and addr = ?a and nm = "Some ''Demo''"
      and net = "Some (JStr ''mantle-testnet'')" and tx = ?t
      and contractFactory = "(Some (JArr []), Some (JStr ''0x6080''), ?w)" and args = "[]"
      and bn = "''4242''" and chatId = 7 and session = key_session
      and netInfo = "snd (hd NETWORKS)" and sessions = key_sessions]
  from inst t
  have 1: "registerContractWithRegistry sample_world ?w ?a (Some ''Demo'')
      (Some (JStr ''mantle-testnet'')) ?t = Inr None"
    by blast
  from inst w
  have 2: "\<exists>pre note. deployContract_resume sample_world 7
      (key_session, snd (hd NETWORKS), ?w, (Some (JArr []), Some (JStr ''0x6080''), ?w), [])
      key_sessions =
        (key_sessions(7 := None),
         pre @ [ContractDeployed ?a ?t (network_name (snd (hd NETWORKS))) ''4242'' note])"
    by simp
  have n: "contractName key_session = Some ''Demo''"
      "session_network key_session = Some (JStr ''mantle-testnet'')"
    by (simp_all add: key_session_def)
  have "snd (deployContract_resume sample_world 7
      (key_session, snd (hd NETWORKS), ?w, (Some (JArr []), Some (JStr ''0x6080''), ?w), [])
      key_sessions) =
     [TransactionSent ?t, RegisteringContract,
      ContractDeployed ?a ?t ''Mantle Sepolia Testnet'' ''4242'' NoNote]"
    by (simp add: deployContract_resume_def deployContract_rest_def then_try_def call_def
        send_def w n 1 NETWORKS_def)
  with 1 2 show ?thesis by simp
qed

subsection \<open>The key step\<close>






text \<open>
  A session that reaches \<open>deployContract\<close> with its \<open>contractData\<close> still \<open>null\<close> fails at
  the first read from it, once the provider and the wallet have been made.
\<close>

lemma deployContract_begin_without_data:
  assumes "new_JsonRpcProvider w (rpcUrl netInfo) = Inr ()"
    and "new_Wallet w (privateKey session) (rpcUrl netInfo) = Inr ()"
    and "contractData session = Some JNull"
  shows "deployContract_begin w session netInfo =
    (if contractInputType session = Some bytecode_abi
     then ([DeployingTo (network_name netInfo)],
           Inl (TypeError ''Cannot read properties of null (reading 'abi')''))
     else ([DeployingTo (network_name netInfo), CompilingSolidityCode],
           Inl (TypeError ''Cannot read properties of null (reading 'sourceCode')'')))"
  using assms
  by (simp add: deployContract_begin_def then_try_def call_def send_def Let_def)











subsection \<open>The contract data step\<close>

text \<open>
  What \<open>handleContractData\<close> does with a text: when the checks throw it answers with the
  error and leaves the store alone; when they pass it writes the data and the next step.
  For the input kind \<open>bytecode_abi\<close> the checks pass exactly when the text parses, its
  \<open>bytecode\<close> is a string that starts with \<open>0x\<close> and its \<open>abi\<close> is truthy: that \<open>abi\<close> is
  an array is not among the checks.
\<close>

lemma handleContractData_rejects:
  assumes "sessions chatId = Some session"
    and "read_contract_data w (contractInputType session) text = Inl e"
  shows "\<exists>hint. handleContractData w chatId text sessions =
           Inr (sessions, [ErrorParsingContractData (message e) hint])"
  using assms by (simp add: handleContractData_def Let_def)

lemma handleContractData_accepts:
  assumes "sessions chatId = Some session"
    and "read_contract_data w (contractInputType session) text = Inr d"
  shows "\<exists>out. handleContractData w chatId text sessions =
           Inr (sessions(chatId \<mapsto> session\<lparr>contractData := Some d,
                                              step := awaiting_constructor_params\<rparr>), out)"
  using assms by (simp add: handleContractData_def Let_def split: sum.splits)

lemma read_contract_data_bytecode_abi:
  "read_contract_data w (Some bytecode_abi) text = Inr d \<longleftrightarrow>
     parse_text w text = Inr d \<and>
     (\<exists>b. get (Some d) ''bytecode'' = Inr (Some (JStr b)) \<and> startsWith b ''0x'') \<and>
     (\<exists>a. get (Some d) ''abi'' = Inr a \<and> truthy a)"
proof (cases "parse_text w text")
  case (Inl e)
  then show ?thesis by (simp add: read_contract_data_def and_then_def)
next
  case (Inr d')
  show ?thesis
  proof (cases "get (Some d') ''bytecode''")
    case (Inl e)
    with Inr show ?thesis by (auto simp: read_contract_data_def and_then_def)
  next
    case bc: (Inr bytecode)
    have same: "\<exists>a. get (Some d') ''abi'' = Inr a"
      using bc by (cases d') auto
    then obtain a where a: "get (Some d') ''abi'' = Inr a" by blast
    have sw: "startsWith b ''0x'' \<Longrightarrow> b \<noteq> []" for b
      by (auto simp: startsWith_def)
    show ?thesis
    proof (cases bytecode)
      case None
      with Inr bc a show ?thesis by (auto simp: read_contract_data_def and_then_def)
    next
      case (Some v)
      with Inr bc a sw show ?thesis
        by (cases v) (auto simp: read_contract_data_def and_then_def)
    qed
  qed
qed

text \<open>
  Claim C5, at the text \<open>{"bytecode":"0x6080","abi":{}}\<close>, whose \<open>abi\<close> is not an array:
  the handler answers with the error message that asks for the data again, and yet the
  session has taken the data and moved to \<open>awaiting_constructor_params\<close>.
\<close>
theorem contract_data_error_after_write:
  "on_message sample_world 7 (Some ''{\"bytecode\":\"0x6080\",\"abi\":{}}'') data_sessions =
     Inr (data_sessions(7 \<mapsto> data_session\<lparr>contractData := Some (JObj [(''bytecode'', JStr ''0x6080''), (''abi'', JObj [])]),
                               step := awaiting_constructor_params\<rparr>),
          [ErrorParsingContractData ''abi.find is not a function'' ''JSON''])"
  by (simp add: on_message_def handleContractData_def data_sessions_def data_session_def deployment_session_def
      startsWith_def read_contract_data_def parse_text_def sample_world_def sample_parse_def
      and_then_def getConstructorInfo_def Let_def)

end
